theory Spec2Isabelle
  imports Complex_Main "HOL-Library.Word"
begin

unbundle bit_operations_syntax

section \<open>Data model (types/index.ts)\<close>

text \<open>
  A JavaScript \<open>number\<close> is modelled as an exact rational: every finite double is a
  rational, and the arithmetic of the pricing code is carried out without rounding.
  A value that may be \<open>undefined\<close> is an \<open>option\<close>.
\<close>

type_synonym number = rat

record RequestToken =
  address :: string
  weight :: number

text \<open>The anonymous object types of \<open>RequestQuote.from\<close> and \<open>RequestQuote.to\<close>.\<close>

record RequestSide =
  network :: string
  tokens :: "RequestToken list"

text \<open>
  \<open>from\<close> is a keyword of the proof language, so the two sides of a quote are the fields
  \<open>req_from\<close>, \<open>req_to\<close> (request) and \<open>res_from\<close>, \<open>res_to\<close> (response).
\<close>

record RequestQuote =
  bucket :: string
  req_from :: RequestSide
  req_to :: RequestSide

record ResponseToken =
  res_address :: string
  amount :: number

record ResponseSide =
  res_network :: string
  res_tokens :: "ResponseToken list"

record ResponseQuote =
  solver :: string
  res_from :: ResponseSide
  res_to :: ResponseSide

record Price =
  price_address :: string
  price :: number

section \<open>Effects: the log, the random generator, the messaging substrate\<close>

text \<open>
  The lines written through the logger and the console. \<open>console.log(JSON.stringify(x))\<close>
  is recorded with the object it prints.
\<close>

datatype log_line =
    LoggerLog string
  | LoggerWarn string
  | LoggerError string
  | ConsoleError string
  | ConsoleWarn string
  | ConsoleLog string
  | ConsoleLogRequest RequestQuote
  | ConsoleLogResponse ResponseQuote

text \<open>
  What a call can change: the lines written so far, how many times \<open>Math.random\<close> has
  been called, the messages handed to the substrate (content topic and payload), and
  the content topic of the relay subscription, if there is one.
\<close>

record world =
  logs :: "log_line list"
  drawn :: nat
  published :: "(string \<times> 8 word list) list"
  subscription :: "string option"

datatype js_error = TypeError | RangeError | WireTypeError | TransportError

definition emit :: "log_line \<Rightarrow> world \<Rightarrow> world" where
  "emit l w = w\<lparr>logs := logs w @ [l]\<rparr>"

section \<open>UtilsService: the pricing engine\<close>

text \<open>\<open>String.prototype.toLowerCase\<close> on the ASCII letters (addresses are hexadecimal).\<close>

definition lower_char :: "char \<Rightarrow> char" where
  "lower_char c =
     (case map_of (zip ''ABCDEFGHIJKLMNOPQRSTUVWXYZ'' ''abcdefghijklmnopqrstuvwxyz'') c of
        Some l \<Rightarrow> l
      | None \<Rightarrow> c)"

definition toLowerCase :: "string \<Rightarrow> string" where
  "toLowerCase s = map lower_char s"

text \<open>
  The truthiness test \<open>if (!x)\<close> on a \<open>number | undefined\<close>: \<open>undefined\<close> and \<open>0\<close> are
  falsy. \<open>truthy\<close> returns the number when the test lets it through.
\<close>

definition truthy :: "number option \<Rightarrow> number option" where
  "truthy v = (case v of None \<Rightarrow> None | Some x \<Rightarrow> if x = 0 then None else Some x)"

text \<open>
  One reply of the external price feed to the request for one address: the request
  fails, the status is not ok, or the body is an object from lower-case addresses to
  their \<open>usd\<close> price.
\<close>

datatype fetch_result =
    FetchFailed
  | HttpStatus nat
  | JsonBody "(string \<times> number) list"

fun getTokenPrices :: "(string \<Rightarrow> fetch_result) \<Rightarrow> world \<Rightarrow> string list \<Rightarrow> Price list \<times> world" where
  "getTokenPrices fetch w [] = ([], w)"
| "getTokenPrices fetch w (a # as) =
     (case fetch a of
        JsonBody data \<Rightarrow>
          (case map_of data (toLowerCase a) of
             Some usd \<Rightarrow>
               (let (ps, w') = getTokenPrices fetch w as
                in (\<lparr>price_address = toLowerCase a, price = usd\<rparr> # ps, w'))
           | None \<Rightarrow>
               getTokenPrices fetch (emit (ConsoleWarn (''Price not found for '' @ a)) w) as)
      | _ \<Rightarrow> getTokenPrices fetch (emit (ConsoleError ''Error fetching token price:'') w) as)"

definition extractTokenAddresses :: "RequestQuote \<Rightarrow> string list" where
  "extractTokenAddresses message =
     (let fromAddresses = map address (tokens (req_from message));
          toAddresses = map address (tokens (req_to message))
      in fromAddresses @ toAddresses)"

definition getPriceForAddress :: "Price list \<Rightarrow> string \<Rightarrow> number option" where
  "getPriceForAddress prices a =
     (case find (\<lambda>p. toLowerCase (price_address p) = toLowerCase a) prices of
        Some priceObj \<Rightarrow> Some (price priceObj)
      | None \<Rightarrow> None)"

text \<open>\<open>Math.random\<close>: the environment fixes the sequence of draws, the world counts them.\<close>

definition getRandomFeePercentage :: "(nat \<Rightarrow> number) \<Rightarrow> world \<Rightarrow> number \<times> world" where
  "getRandomFeePercentage rnd w =
     (let minFee = 1 / 1000;
          maxFee = 1 / 100
      in (rnd (drawn w) * (maxFee - minFee) + minFee, w\<lparr>drawn := Suc (drawn w)\<rparr>))"

text \<open>The body of the arrow function that \<open>computeUpdatedToTokens\<close> maps over \<open>toTokens\<close>.\<close>

definition computeToToken ::
  "(nat \<Rightarrow> number) \<Rightarrow> number \<Rightarrow> Price list \<Rightarrow> world \<Rightarrow> RequestToken \<Rightarrow> ResponseToken \<times> world" where
  "computeToToken rnd fromTokenAmountInUSD prices w toToken =
     (case truthy (getPriceForAddress prices (address toToken)) of
        None \<Rightarrow>
          (\<lparr>res_address = address toToken, amount = 0\<rparr>,
           emit (ConsoleError (''Prezzo non trovato per l'' @ [CHR 0x27] @ ''indirizzo '' @ address toToken)) w)
      | Some toTokenPrice \<Rightarrow>
          (let toTokenAmountInUSD = (fromTokenAmountInUSD * weight toToken) / 100;
               toTokenAmount = toTokenAmountInUSD / toTokenPrice;
               (feePercentage, w') = getRandomFeePercentage rnd w;
               toTokenAmountAfterFee = toTokenAmount * (1 - feePercentage)
           in (\<lparr>res_address = address toToken, amount = toTokenAmountAfterFee\<rparr>, w')))"

fun computeUpdatedToTokens ::
  "(nat \<Rightarrow> number) \<Rightarrow> world \<Rightarrow> RequestToken list \<Rightarrow> number \<Rightarrow> Price list \<Rightarrow> ResponseToken list \<times> world" where
  "computeUpdatedToTokens rnd w [] fromTokenAmountInUSD prices = ([], w)"
| "computeUpdatedToTokens rnd w (toToken # rest) fromTokenAmountInUSD prices =
     (let (r, w1) = computeToToken rnd fromTokenAmountInUSD prices w toToken;
          (rs, w2) = computeUpdatedToTokens rnd w1 rest fromTokenAmountInUSD prices
      in (r # rs, w2))"


section \<open>The wallet\<close>

text \<open>Of the wallet, the services read the public key only.\<close>

record HDNodeWallet =
  publicKey :: string
  privateKey :: string


section \<open>SHA-256 (the digest behind \<open>createHash('sha256')\<close>)\<close>

text \<open>
  The hash function of FIPS 180-4 on a list of bytes: the message is padded to a
  multiple of 64 bytes, each block is expanded to 64 words and run through 64 rounds,
  and the eight state words are the digest. \<open>sha256_hex\<close> is
  \<open>update(s).digest('hex')\<close>: the bytes of the string, hashed, in lower-case hex.
\<close>

definition Ch :: "32 word \<Rightarrow> 32 word \<Rightarrow> 32 word \<Rightarrow> 32 word" where
  "Ch x y z = (x AND y) XOR (NOT x AND z)"

definition Maj :: "32 word \<Rightarrow> 32 word \<Rightarrow> 32 word \<Rightarrow> 32 word" where
  "Maj x y z = (x AND y) XOR (x AND z) XOR (y AND z)"

definition rotr :: "nat \<Rightarrow> 32 word \<Rightarrow> 32 word" where
  "rotr n x = drop_bit n x OR push_bit (32 - n) x"

definition bsig0 :: "32 word \<Rightarrow> 32 word" where
  "bsig0 x = rotr 2 x XOR rotr 13 x XOR rotr 22 x"

definition bsig1 :: "32 word \<Rightarrow> 32 word" where
  "bsig1 x = rotr 6 x XOR rotr 11 x XOR rotr 25 x"

definition ssig0 :: "32 word \<Rightarrow> 32 word" where
  "ssig0 x = rotr 7 x XOR rotr 18 x XOR drop_bit 3 x"

definition ssig1 :: "32 word \<Rightarrow> 32 word" where
  "ssig1 x = rotr 17 x XOR rotr 19 x XOR drop_bit 10 x"

definition sha256_K :: "32 word list" where
  "sha256_K =
    [0x428A2F98, 0x71374491, 0xB5C0FBCF, 0xE9B5DBA5, 0x3956C25B, 0x59F111F1, 0x923F82A4, 0xAB1C5ED5,
     0xD807AA98, 0x12835B01, 0x243185BE, 0x550C7DC3, 0x72BE5D74, 0x80DEB1FE, 0x9BDC06A7, 0xC19BF174,
     0xE49B69C1, 0xEFBE4786, 0x0FC19DC6, 0x240CA1CC, 0x2DE92C6F, 0x4A7484AA, 0x5CB0A9DC, 0x76F988DA,
     0x983E5152, 0xA831C66D, 0xB00327C8, 0xBF597FC7, 0xC6E00BF3, 0xD5A79147, 0x06CA6351, 0x14292967,
     0x27B70A85, 0x2E1B2138, 0x4D2C6DFC, 0x53380D13, 0x650A7354, 0x766A0ABB, 0x81C2C92E, 0x92722C85,
     0xA2BFE8A1, 0xA81A664B, 0xC24B8B70, 0xC76C51A3, 0xD192E819, 0xD6990624, 0xF40E3585, 0x106AA070,
     0x19A4C116, 0x1E376C08, 0x2748774C, 0x34B0BCB5, 0x391C0CB3, 0x4ED8AA4A, 0x5B9CCA4F, 0x682E6FF3,
     0x748F82EE, 0x78A5636F, 0x84C87814, 0x8CC70208, 0x90BEFFFA, 0xA4506CEB, 0xBEF9A3F7, 0xC67178F2]"

type_synonym sha_state = "32 word \<times> 32 word \<times> 32 word \<times> 32 word \<times> 32 word \<times> 32 word \<times> 32 word \<times> 32 word"

definition sha256_H0 :: sha_state where
  "sha256_H0 =
    (0x6A09E667, 0xBB67AE85, 0x3C6EF372, 0xA54FF53A, 0x510E527F, 0x9B05688C, 0x1F83D9AB, 0x5BE0CD19)"

definition pad :: "8 word list \<Rightarrow> 8 word list" where
  "pad m =
     (let l = length m;
          k = (119 - l mod 64) mod 64;
          bits = (of_nat (8 * l) :: 64 word)
      in m @ [0x80] @ replicate k 0 @ map (\<lambda>i. ucast (drop_bit (8 * (7 - i)) bits)) [0..<8])"

fun chunks :: "nat \<Rightarrow> nat \<Rightarrow> 'a list \<Rightarrow> 'a list list" where
  "chunks 0 n xs = []"
| "chunks (Suc c) n xs = take n xs # chunks c n (drop n xs)"

definition be32 :: "8 word list \<Rightarrow> 32 word" where
  "be32 bs = foldl (\<lambda>acc b. push_bit 8 acc OR ucast b) 0 bs"

fun schedule :: "nat \<Rightarrow> 32 word list \<Rightarrow> 32 word list" where
  "schedule 0 ws = ws"
| "schedule (Suc n) ws =
     (let t = length ws
      in schedule n (ws @ [ssig1 (ws ! (t - 2)) + ws ! (t - 7) + ssig0 (ws ! (t - 15)) + ws ! (t - 16)]))"

definition sha_round :: "sha_state \<Rightarrow> 32 word \<times> 32 word \<Rightarrow> sha_state" where
  "sha_round st kw =
     (case st of (a, b, c, d, e, f, g, h) \<Rightarrow>
        (let t1 = h + bsig1 e + Ch e f g + fst kw + snd kw;
             t2 = bsig0 a + Maj a b c
         in (t1 + t2, a, b, c, d + t1, e, f, g)))"

definition compress :: "sha_state \<Rightarrow> 8 word list \<Rightarrow> sha_state" where
  "compress st block =
     (let w = schedule 48 (map be32 (chunks 16 4 block))
      in case (st, foldl sha_round st (zip sha256_K w)) of
           ((a, b, c, d, e, f, g, h), (a', b', c', d', e', f', g', h')) \<Rightarrow>
             (a + a', b + b', c + c', d + d', e + e', f + f', g + g', h + h'))"

definition sha256 :: "8 word list \<Rightarrow> 32 word list" where
  "sha256 m =
     (let p = pad m
      in case foldl compress sha256_H0 (chunks (length p div 64) 64 p) of
           (a, b, c, d, e, f, g, h) \<Rightarrow> [a, b, c, d, e, f, g, h])"

definition hexDigits :: string where
  "hexDigits = ''0123456789abcdef''"

definition hex_digit :: "nat \<Rightarrow> char" where
  "hex_digit n = hexDigits ! (n mod 16)"

definition hex32 :: "32 word \<Rightarrow> string" where
  "hex32 x = map (\<lambda>i. hex_digit (unat (drop_bit (4 * (7 - i)) x AND 15))) [0..<8]"

definition sha256_hex :: "string \<Rightarrow> string" where
  "sha256_hex s = concat (map hex32 (sha256 (map of_char s)))"

text \<open>\<open>UtilsService.getBucketFromPublicKey\<close>; \<open>substring(0, 8)\<close> keeps the first 8 characters.\<close>

definition getBucketFromPublicKey :: "HDNodeWallet \<Rightarrow> string" where
  "getBucketFromPublicKey wlt =
     (let hash = sha256_hex (publicKey wlt)
      in take 8 hash)"


section \<open>The collaborators of the two services\<close>

text \<open>
  What the services get from outside the repository: the price feed, \<open>Math.random\<close>,
  the wallet drawn at construction, the protobufjs codec of the two message types
  (decoding may throw), and the substrate (creating and starting a light node may
  throw, and so may \<open>lightPush.send\<close>).
\<close>

record env =
  fetch :: "string \<Rightarrow> fetch_result"
  mathRandom :: "nat \<Rightarrow> number"
  wallet :: HDNodeWallet
  decodeRequest :: "8 word list \<Rightarrow> js_error + RequestQuote"
  encodeRequest :: "RequestQuote \<Rightarrow> 8 word list"
  decodeResponse :: "8 word list \<Rightarrow> js_error + ResponseQuote"
  encodeResponse :: "ResponseQuote \<Rightarrow> 8 word list"
  lightNode :: "js_error option"
  lightPush :: "string \<Rightarrow> 8 word list \<Rightarrow> js_error option"

section \<open>SolverService\<close>

text \<open>The constructor's \<open>contentTopics[0]\<close>, on which the solver subscribes.\<close>

definition solverContentTopic :: string where
  "solverContentTopic = ''/iLayer/1/rfq/proto''"

text \<open>The template literal of \<open>sendResponse\<close>.\<close>

definition solverResponseTopic :: "string \<Rightarrow> string" where
  "solverResponseTopic b = ''/iLayer/1/'' @ b @ ''/proto''"

text \<open>
  \<open>processMessage\<close> returns \<open>Inr None\<close> where the source runs into its bare \<open>return\<close>
  (the promise resolves to \<open>undefined\<close>), and \<open>Inl TypeError\<close> where \<open>from.tokens\<close> is
  empty: \<open>request.from.tokens[0]\<close> is then \<open>undefined\<close> and reading its \<open>address\<close> throws.
\<close>

definition processMessage :: "env \<Rightarrow> world \<Rightarrow> RequestQuote \<Rightarrow> (js_error + ResponseQuote option) \<times> world" where
  "processMessage e w request =
     (let tokenAddresses = extractTokenAddresses request;
          (prices, w1) = getTokenPrices (fetch e) w tokenAddresses
      in case tokens (req_from request) of
           [] \<Rightarrow> (Inl TypeError, w1)
         | fromToken # _ \<Rightarrow>
             (case truthy (getPriceForAddress prices (address fromToken)) of
                None \<Rightarrow>
                  (Inr None, emit (LoggerError (''Price not found for '' @ address fromToken)) w1)
              | Some fromTokenPrice \<Rightarrow>
                  (let fromTokenAmountInUSD = weight fromToken * fromTokenPrice;
                       (updatedToTokens, w2) =
                          computeUpdatedToTokens (mathRandom e) w1 (tokens (req_to request))
                            fromTokenAmountInUSD prices;
                       response =
                         \<lparr>solver = publicKey (wallet e),
                          res_from =
                            \<lparr>res_network = network (req_from request),
                             res_tokens =
                               map (\<lambda>token. \<lparr>res_address = address token, amount = weight token\<rparr>)
                                 (tokens (req_from request))\<rparr>,
                          res_to =
                            \<lparr>res_network = network (req_to request),
                             res_tokens = updatedToTokens\<rparr>\<rparr>
                   in (Inr (Some response), w2))))"

text \<open>
  \<open>sendResponse\<close>: the light node is created and started, the response is encoded and
  pushed once on the bucket's topic. The generated protobufjs encoder reads the fields
  of the message it is given, so encoding \<open>undefined\<close> throws a \<open>TypeError\<close> before
  anything is sent.
\<close>

definition sendResponse :: "env \<Rightarrow> world \<Rightarrow> string \<Rightarrow> ResponseQuote option \<Rightarrow> (js_error + unit) \<times> world" where
  "sendResponse e w b response =
     (let contentTopic = solverResponseTopic b
      in case lightNode e of
           Some err \<Rightarrow> (Inl err, w)
         | None \<Rightarrow>
             (let w1 = emit (LoggerLog ''Sending response for quotes...'') w
              in case response of
                   None \<Rightarrow> (Inl TypeError, w1)
                 | Some r \<Rightarrow>
                     (let serialisedMessage = encodeResponse e r
                      in case lightPush e contentTopic serialisedMessage of
                           Some err \<Rightarrow> (Inl err, w1)
                         | None \<Rightarrow>
                             (Inr (),
                              emit (LoggerLog ''Response for quotes sent.'')
                                (w1\<lparr>published := published w1 @ [(contentTopic, serialisedMessage)]\<rparr>)))))"

text \<open>
  The solver's \<open>callback\<close>. A message carries a payload or none. The result \<open>Inl err\<close> is
  an exception that leaves the callback: the source has no \<open>try\<close> around any of its steps.
\<close>

definition callback :: "env \<Rightarrow> world \<Rightarrow> 8 word list option \<Rightarrow> (js_error + unit) \<times> world" where
  "callback e w payload =
     (let w0 = emit (LoggerLog ''New request for quotes received.'') w
      in case payload of
           None \<Rightarrow> (Inr (), w0)
         | Some p \<Rightarrow>
             (case decodeRequest e p of
                Inl err \<Rightarrow> (Inl err, w0)
              | Inr request \<Rightarrow>
                  (case processMessage e w0 request of
                     (Inl err, w1) \<Rightarrow> (Inl err, w1)
                   | (Inr response, w1) \<Rightarrow> sendResponse e w1 (bucket request) response)))"

text \<open>
  One attempt of \<open>listenToQuoteRequests\<close>: \<open>ok\<close> says whether the substrate's subscribe
  call succeeds. The decoder it subscribes with was made in the constructor for
  \<open>contentTopics[0]\<close>. The result says whether a retry has been scheduled (after 3000 ms).
\<close>

definition listenToQuoteRequests :: "bool \<Rightarrow> world \<Rightarrow> bool \<times> world" where
  "listenToQuoteRequests ok w =
     (if ok then (False, emit (LoggerLog ''Subscribed to quotes request topic.'')
                          (w\<lparr>subscription := Some solverContentTopic\<rparr>))
      else (True, emit (LoggerWarn ''Subscription retry...'') w))"


text \<open>
  Modelled from the spec: the substrate's side of a subscription, which is outside the
  repository. It invokes the callback once per received message whose content topic is
  the one subscribed to, in order. The callback is an \<open>async\<close> function: a failure inside
  it rejects the promise that the call returns and does not throw into the caller, so
  the substrate goes on to the next message whatever the outcome was.
\<close>

fun deliver ::
  "(world \<Rightarrow> 8 word list option \<Rightarrow> (js_error + unit) \<times> world) \<Rightarrow> world
     \<Rightarrow> (string \<times> 8 word list option) list \<Rightarrow> world" where
  "deliver cb w [] = w"
| "deliver cb w ((topic, payload) # rest) =
     (if subscription w = Some topic then deliver cb (snd (cb w payload)) rest
      else deliver cb w rest)"

section \<open>UserService\<close>

text \<open>The constructor's template literal: the topic the requester listens on.\<close>

definition userContentTopic :: "string \<Rightarrow> string" where
  "userContentTopic b = ''/iLayer/1/'' @ b @ ''/proto''"

text \<open>The constructor's \<open>this.bucket\<close>.\<close>

definition userBucket :: "env \<Rightarrow> string" where
  "userBucket e = getBucketFromPublicKey (wallet e)"

text \<open>
  One attempt of \<open>listenToQuoteResponses\<close>, with the decoder the constructor made for the
  topic of the requester's own bucket.
\<close>

definition listenToQuoteResponses :: "env \<Rightarrow> bool \<Rightarrow> world \<Rightarrow> bool \<times> world" where
  "listenToQuoteResponses e ok w =
     (if ok then (False, emit (LoggerLog ''Subscribed to quotes response topic.'')
                          (w\<lparr>subscription := Some (userContentTopic (userBucket e))\<rparr>))
      else (True, emit (LoggerWarn ''Subscription retry...'') w))"

text \<open>\<open>contentTopics[0]\<close> of \<open>sendRequest\<close>.\<close>

definition userRequestTopic :: string where
  "userRequestTopic = ''/iLayer/1/rfq/proto''"

text \<open>The requester's \<open>callback\<close>: decode the response and print it.\<close>

definition userCallback :: "env \<Rightarrow> world \<Rightarrow> 8 word list option \<Rightarrow> (js_error + unit) \<times> world" where
  "userCallback e w payload =
     (let w0 = emit (LoggerLog ''New response for quotes received.'') w
      in case payload of
           None \<Rightarrow> (Inr (), w0)
         | Some p \<Rightarrow>
             (case decodeResponse e p of
                Inl err \<Rightarrow> (Inl err, w0)
              | Inr response \<Rightarrow> (Inr (), emit (ConsoleLogResponse response) w0)))"

text \<open>The hard-coded message of \<open>sendRequest\<close>, for the requester's bucket.\<close>

definition sampleMessage :: "string \<Rightarrow> RequestQuote" where
  "sampleMessage b =
     \<lparr>bucket = b,
      req_from =
        \<lparr>network = ''mainnet'',
         tokens = [\<lparr>address = ''0xc02aaa39b223fe8d0a0e5c4f27ead9083c756cc2'', weight = 1\<rparr>]\<rparr>,
      req_to =
        \<lparr>network = ''base'',
         tokens =
           [\<lparr>address = ''0xa0b86991c6218b36c1d19d4a2e9eb0ce3606eb48'', weight = 30\<rparr>,
            \<lparr>address = ''0xdac17f958d2ee523a2206206994597c13d831ec7'', weight = 70\<rparr>]\<rparr>\<rparr>"

text \<open>
  \<open>sendRequest\<close>: a light node, the sample message with the requester's bucket printed,
  encoded and pushed once on the request topic.
\<close>

definition sendRequest :: "env \<Rightarrow> world \<Rightarrow> (js_error + unit) \<times> world" where
  "sendRequest e w =
     (let contentTopic = userRequestTopic
      in case lightNode e of
           Some err \<Rightarrow> (Inl err, w)
         | None \<Rightarrow>
             (let w1 = emit (LoggerLog ''Sending request for quotes...'') w;
                  message = sampleMessage (userBucket e);
                  w2 = emit (ConsoleLogRequest message) w1;
                  serialisedMessage = encodeRequest e message
              in case lightPush e contentTopic serialisedMessage of
                   Some err \<Rightarrow> (Inl err, w2)
                 | None \<Rightarrow>
                     (Inr (),
                      emit (LoggerLog ''Request for quotes sent.'')
                        (w2\<lparr>published := published w2 @ [(contentTopic, serialisedMessage)]\<rparr>))))"


section \<open>The wire codec of the request schema\<close>

text \<open>
  \<open>getRequestType\<close> declares the schema: \<open>RequestToken {address = 1: string, weight = 2:
  int32}\<close>, \<open>RequestFrom\<close> and \<open>RequestTo {network = 1: string, tokens = 2: repeated
  RequestToken}\<close>, \<open>Request {bucket = 1: string, from = 2: RequestFrom, to = 3: RequestTo}\<close>.
  The functions below are what protobufjs generates and runs for it: its \<open>Writer\<close> and
  \<open>Reader\<close>, the encoder and decoder of each type, and the conversion \<open>toJSON\<close>.
  A string is modelled by its UTF-8 bytes.
\<close>

subsection \<open>Writer\<close>

text \<open>A base-128 varint, least significant group first.\<close>

function varint :: "nat \<Rightarrow> 8 word list" where
  "varint n = (if n < 128 then [of_nat n] else of_nat (128 + n mod 128) # varint (n div 128))"
  by pat_completeness auto
termination
  by (relation "measure id") auto

declare varint.simps [simp del]






subsection \<open>The generated encoders\<close>




subsection \<open>Reader\<close>

text \<open>
  The reader is the part of the buffer not yet read. \<open>Reader.uint32\<close> takes up to five
  bytes, the fifth for its low four bits; if the fifth has the continuation bit it
  jumps over five more. Reading past the end of the buffer throws a \<open>RangeError\<close>.
\<close>

fun uint32_from :: "nat \<Rightarrow> 8 word list \<Rightarrow> js_error + nat \<times> 8 word list" where
  "uint32_from i [] = Inl RangeError"
| "uint32_from i (b # bs) =
     (let v = (unat b mod (if i = 4 then 16 else 128)) * 2 ^ (7 * i)
      in if unat b < 128 then Inr (v, bs)
         else if i = 4 then (if length bs < 5 then Inl RangeError else Inr (v, drop 5 bs))
         else (case uint32_from (Suc i) bs of
                 Inl e \<Rightarrow> Inl e
               | Inr (v', rest) \<Rightarrow> Inr (v + v', rest)))"

definition readUint32 :: "8 word list \<Rightarrow> js_error + nat \<times> 8 word list" where
  "readUint32 bs = uint32_from 0 bs"

text \<open>\<open>Reader.int32\<close> is \<open>uint32() | 0\<close>: the 32 bits read as two's complement.\<close>

definition readInt32 :: "8 word list \<Rightarrow> js_error + number \<times> 8 word list" where
  "readInt32 bs =
     (case readUint32 bs of
        Inl e \<Rightarrow> Inl e
      | Inr (n, rest) \<Rightarrow> Inr (of_int (sint (of_nat n :: 32 word)), rest))"

definition readString :: "8 word list \<Rightarrow> js_error + string \<times> 8 word list" where
  "readString bs =
     (case readUint32 bs of
        Inl e \<Rightarrow> Inl e
      | Inr (n, rest) \<Rightarrow>
          if n > length rest then Inl RangeError
          else Inr (map (\<lambda>b. char_of (unat b)) (take n rest), drop n rest))"

text \<open>\<open>Reader.skip\<close> without a length: to the end of a varint.\<close>

fun skipVarint :: "8 word list \<Rightarrow> js_error + 8 word list" where
  "skipVarint [] = Inl RangeError"
| "skipVarint (b # bs) = (if unat b \<ge> 128 then skipVarint bs else Inr bs)"

definition skipBytes :: "nat \<Rightarrow> 8 word list \<Rightarrow> js_error + 8 word list" where
  "skipBytes n bs = (if n > length bs then Inl RangeError else Inr (drop n bs))"

text \<open>
  \<open>Reader.skipType\<close>, with the loop over a group as \<open>skipGroup\<close>. Each pass of the loop
  reads a tag, so the buffer gets shorter: the tests on the lengths always succeed,
  and they are what makes the recursion well-founded.
\<close>

function skipType :: "nat \<Rightarrow> 8 word list \<Rightarrow> js_error + 8 word list"
  and skipGroup :: "8 word list \<Rightarrow> js_error + 8 word list" where
  "skipType wireType bs =
     (if wireType = 0 then skipVarint bs
      else if wireType = 1 then skipBytes 8 bs
      else if wireType = 2 then
        (case readUint32 bs of Inl e \<Rightarrow> Inl e | Inr (n, rest) \<Rightarrow> skipBytes n rest)
      else if wireType = 3 then skipGroup bs
      else if wireType = 5 then skipBytes 4 bs
      else Inl WireTypeError)"
| "skipGroup bs =
     (case readUint32 bs of
        Inl e \<Rightarrow> Inl e
      | Inr (t, rest) \<Rightarrow>
          if t mod 8 = 4 then Inr rest
          else if length rest < length bs then
            (case skipType (t mod 8) rest of
               Inl e \<Rightarrow> Inl e
             | Inr rest' \<Rightarrow> if length rest' \<le> length rest then skipGroup rest' else Inl RangeError)
          else Inl RangeError)"
  by pat_completeness auto
termination
  by (relation "measure (\<lambda>x. case x of Inl (w, bs) \<Rightarrow> 2 * length bs + 1 | Inr bs \<Rightarrow> 2 * length bs)") auto

declare skipType.simps [simp del] skipGroup.simps [simp del]

subsection \<open>The generated decoders\<close>

text \<open>
  A decoded message instance: a field is set when the wire carried it, and a repeated
  field starts as the empty list.
\<close>

record TokenMessage =
  m_address :: "string option"
  m_weight :: "number option"

record SideMessage =
  m_network :: "string option"
  m_tokens :: "TokenMessage list"

record RequestMessage =
  m_bucket :: "string option"
  m_from :: "SideMessage option"
  m_to :: "SideMessage option"

text \<open>
  The loop \<open>while (r.pos < c)\<close> of a generated decoder: \<open>room\<close> is \<open>c - r.pos\<close>, and \<open>field\<close> is
  the body of the \<open>switch\<close> for the tag read. As in \<open>skipGroup\<close>, the test on the lengths
  always succeeds.
\<close>

function decodeLoop ::
  "(nat \<Rightarrow> 'm \<Rightarrow> 8 word list \<Rightarrow> js_error + 'm \<times> 8 word list) \<Rightarrow> int \<Rightarrow> 8 word list \<Rightarrow> 'm
     \<Rightarrow> js_error + 'm \<times> 8 word list" where
  "decodeLoop field room bs m =
     (if room \<le> 0 then Inr (m, bs)
      else case readUint32 bs of
             Inl e \<Rightarrow> Inl e
           | Inr (t, rest) \<Rightarrow>
               (case field t m rest of
                  Inl e \<Rightarrow> Inl e
                | Inr (m', rest') \<Rightarrow>
                    if length rest' < length bs
                    then decodeLoop field (room - int (length bs - length rest')) rest' m'
                    else Inl RangeError))"
  by pat_completeness auto
termination
  by (relation "measure (\<lambda>(field, room, bs, m). length bs)") auto

declare decodeLoop.simps [simp del]

definition RequestToken_field :: "nat \<Rightarrow> TokenMessage \<Rightarrow> 8 word list \<Rightarrow> js_error + TokenMessage \<times> 8 word list" where
  "RequestToken_field t m bs =
     (if t div 8 = 1 then
        (case readString bs of Inl e \<Rightarrow> Inl e | Inr (s, rest) \<Rightarrow> Inr (m\<lparr>m_address := Some s\<rparr>, rest))
      else if t div 8 = 2 then
        (case readInt32 bs of Inl e \<Rightarrow> Inl e | Inr (v, rest) \<Rightarrow> Inr (m\<lparr>m_weight := Some v\<rparr>, rest))
      else
        (case skipType (t mod 8) bs of Inl e \<Rightarrow> Inl e | Inr rest \<Rightarrow> Inr (m, rest)))"

definition RequestToken_decode :: "int \<Rightarrow> 8 word list \<Rightarrow> js_error + TokenMessage \<times> 8 word list" where
  "RequestToken_decode l bs = decodeLoop RequestToken_field l bs \<lparr>m_address = None, m_weight = None\<rparr>"

definition RequestSide_field :: "nat \<Rightarrow> SideMessage \<Rightarrow> 8 word list \<Rightarrow> js_error + SideMessage \<times> 8 word list" where
  "RequestSide_field t m bs =
     (if t div 8 = 1 then
        (case readString bs of Inl e \<Rightarrow> Inl e | Inr (s, rest) \<Rightarrow> Inr (m\<lparr>m_network := Some s\<rparr>, rest))
      else if t div 8 = 2 then
        (case readUint32 bs of
           Inl e \<Rightarrow> Inl e
         | Inr (l, rest) \<Rightarrow>
             (case RequestToken_decode (int l) rest of
                Inl e \<Rightarrow> Inl e
              | Inr (tok, rest') \<Rightarrow> Inr (m\<lparr>m_tokens := m_tokens m @ [tok]\<rparr>, rest')))
      else
        (case skipType (t mod 8) bs of Inl e \<Rightarrow> Inl e | Inr rest \<Rightarrow> Inr (m, rest)))"

definition RequestSide_decode :: "int \<Rightarrow> 8 word list \<Rightarrow> js_error + SideMessage \<times> 8 word list" where
  "RequestSide_decode l bs = decodeLoop RequestSide_field l bs \<lparr>m_network = None, m_tokens = []\<rparr>"

definition Request_field :: "nat \<Rightarrow> RequestMessage \<Rightarrow> 8 word list \<Rightarrow> js_error + RequestMessage \<times> 8 word list" where
  "Request_field t m bs =
     (if t div 8 = 1 then
        (case readString bs of Inl e \<Rightarrow> Inl e | Inr (s, rest) \<Rightarrow> Inr (m\<lparr>m_bucket := Some s\<rparr>, rest))
      else if t div 8 = 2 then
        (case readUint32 bs of
           Inl e \<Rightarrow> Inl e
         | Inr (l, rest) \<Rightarrow>
             (case RequestSide_decode (int l) rest of
                Inl e \<Rightarrow> Inl e
              | Inr (side, rest') \<Rightarrow> Inr (m\<lparr>m_from := Some side\<rparr>, rest')))
      else if t div 8 = 3 then
        (case readUint32 bs of
           Inl e \<Rightarrow> Inl e
         | Inr (l, rest) \<Rightarrow>
             (case RequestSide_decode (int l) rest of
                Inl e \<Rightarrow> Inl e
              | Inr (side, rest') \<Rightarrow> Inr (m\<lparr>m_to := Some side\<rparr>, rest')))
      else
        (case skipType (t mod 8) bs of Inl e \<Rightarrow> Inl e | Inr rest \<Rightarrow> Inr (m, rest)))"

text \<open>\<open>requestType.decode(payload)\<close>: the loop runs to the end of the buffer.\<close>

definition Request_decode :: "8 word list \<Rightarrow> js_error + RequestMessage" where
  "Request_decode payload =
     (case decodeLoop Request_field (int (length payload)) payload
             \<lparr>m_bucket = None, m_from = None, m_to = None\<rparr> of
        Inl e \<Rightarrow> Inl e
      | Inr (m, rest) \<Rightarrow> Inr m)"

subsection \<open>\<open>toJSON\<close>\<close>

















section \<open>Example inputs\<close>

text \<open>A solver's world in which nothing has happened yet and the subscription is active.\<close>

definition w0 :: world where
  "w0 = \<lparr>logs = [], drawn = 0, published = [], subscription = Some solverContentTopic\<rparr>"

text \<open>The request of the concrete scenario: 1000 of \<open>0xAAA\<close> into 30 and 70 percent.\<close>

definition scenarioRequest :: RequestQuote where
  "scenarioRequest =
     \<lparr>bucket = ''ab12cd34'',
      req_from = \<lparr>network = ''mainnet'', tokens = [\<lparr>address = ''0xAAA'', weight = 1000\<rparr>]\<rparr>,
      req_to = \<lparr>network = ''base'',
                tokens = [\<lparr>address = ''0xBBB'', weight = 30\<rparr>, \<lparr>address = ''0xCCC'', weight = 70\<rparr>]\<rparr>\<rparr>"

text \<open>A price feed that knows the prices of a table and answers with an empty object otherwise.\<close>

definition tableFetch :: "(string \<times> number) list \<Rightarrow> string \<Rightarrow> fetch_result" where
  "tableFetch tbl a =
     (case map_of tbl (toLowerCase a) of
        Some usd \<Rightarrow> JsonBody [(toLowerCase a, usd)]
      | None \<Rightarrow> JsonBody [])"

definition scenarioPrices :: "(string \<times> number) list" where
  "scenarioPrices = [(''0xaaa'', 1), (''0xbbb'', 2), (''0xccc'', 5)]"

text \<open>
  An environment for the examples: the feed and the draws are given, the substrate
  works, and the codec is a test double that knows one request payload (the byte 1
  stands for the encoded scenario request) and rejects every other one.
\<close>

definition scenarioEnv :: "(string \<times> number) list \<Rightarrow> (nat \<Rightarrow> number) \<Rightarrow> env" where
  "scenarioEnv tbl rnd =
     \<lparr>fetch = tableFetch tbl,
      mathRandom = rnd,
      wallet = \<lparr>publicKey = ''0x02feed'', privateKey = ''0x01''\<rparr>,
      decodeRequest = (\<lambda>p. if p = [1] then Inr scenarioRequest else Inl RangeError),
      encodeRequest = (\<lambda>r. [1]),
      decodeResponse = (\<lambda>p. Inl RangeError),
      encodeResponse = (\<lambda>r. [2]),
      lightNode = None,
      lightPush = (\<lambda>t p. None)\<rparr>"

text \<open>
  The draw at which \<open>getRandomFeePercentage\<close> returns the fee 0: the scenario's
  "fee forced to 0", which no draw of \<open>Math.random\<close> in [0, 1) produces.
\<close>

definition zeroFeeDraw :: "nat \<Rightarrow> number" where
  "zeroFeeDraw n = - 1 / 9"



section \<open>Facts about the model\<close>

subsection \<open>What the pricing functions leave unchanged\<close>

lemma emit_simps [simp]:
  "logs (emit l w) = logs w @ [l]" "drawn (emit l w) = drawn w"
  "published (emit l w) = published w" "subscription (emit l w) = subscription w"
  by (simp_all add: emit_def)

lemma getTokenPrices_frame:
  "drawn (snd (getTokenPrices f w as)) = drawn w \<and>
   published (snd (getTokenPrices f w as)) = published w \<and>
   subscription (snd (getTokenPrices f w as)) = subscription w"
proof (induction as arbitrary: w)
  case Nil
  show ?case by simp
next
  case (Cons a as)
  show ?case
    using Cons.IH [of w] Cons.IH [of "emit (ConsoleWarn (''Price not found for '' @ a)) w"]
      Cons.IH [of "emit (ConsoleError ''Error fetching token price:'') w"]
    by (simp add: split_beta split: fetch_result.splits option.splits)
qed

lemma getTokenPrices_prices_indep:
  "fst (getTokenPrices f w as) = fst (getTokenPrices f w' as)"
proof (induction as arbitrary: w w')
  case Nil
  show ?case by simp
next
  case (Cons a as)
  show ?case
    using Cons.IH [of w w'] Cons.IH [of "emit (ConsoleWarn (''Price not found for '' @ a)) w" "emit (ConsoleWarn (''Price not found for '' @ a)) w'"]
      Cons.IH [of "emit (ConsoleError ''Error fetching token price:'') w" "emit (ConsoleError ''Error fetching token price:'') w'"]
    by (simp add: split_beta split: fetch_result.splits option.splits)
qed

lemma computeToToken_drawn_only:
  "drawn w = drawn w' \<Longrightarrow>
   fst (computeToToken rnd usd prices w t) = fst (computeToToken rnd usd prices w' t) \<and>
   drawn (snd (computeToToken rnd usd prices w t)) = drawn (snd (computeToToken rnd usd prices w' t))"
  by (auto simp: computeToToken_def getRandomFeePercentage_def Let_def split: option.splits)

lemma computeToToken_frame:
  "published (snd (computeToToken rnd usd prices w t)) = published w \<and>
   subscription (snd (computeToToken rnd usd prices w t)) = subscription w"
  by (auto simp: computeToToken_def getRandomFeePercentage_def Let_def split: option.splits)

lemma computeUpdatedToTokens_drawn_only:
  "drawn w = drawn w' \<Longrightarrow>
   fst (computeUpdatedToTokens rnd w ts usd prices) = fst (computeUpdatedToTokens rnd w' ts usd prices) \<and>
   drawn (snd (computeUpdatedToTokens rnd w ts usd prices)) = drawn (snd (computeUpdatedToTokens rnd w' ts usd prices))"
proof (induction ts arbitrary: w w')
  case Nil
  then show ?case by simp
next
  case (Cons t ts)
  from computeToToken_drawn_only [OF Cons.prems, of rnd usd prices t]
  have h: "fst (computeToToken rnd usd prices w t) = fst (computeToToken rnd usd prices w' t)"
    and d: "drawn (snd (computeToToken rnd usd prices w t)) = drawn (snd (computeToToken rnd usd prices w' t))"
    by simp_all
  from Cons.IH [OF d] h show ?case
    by (simp add: split_beta Let_def)
qed

lemma computeUpdatedToTokens_frame:
  "published (snd (computeUpdatedToTokens rnd w ts usd prices)) = published w \<and>
   subscription (snd (computeUpdatedToTokens rnd w ts usd prices)) = subscription w"
  by (induction ts arbitrary: w) (simp_all add: split_beta Let_def computeToToken_frame)

lemma computeUpdatedToTokens_append:
  "computeUpdatedToTokens rnd w (xs @ ys) usd prices =
     (let (a, w1) = computeUpdatedToTokens rnd w xs usd prices;
          (b, w2) = computeUpdatedToTokens rnd w1 ys usd prices
      in (a @ b, w2))"
  by (induction xs arbitrary: w) (simp_all add: split_beta Let_def)

lemma computeUpdatedToTokens_length:
  "length (fst (computeUpdatedToTokens rnd w ts usd prices)) = length ts"
  by (induction ts arbitrary: w) (simp_all add: split_beta Let_def)


lemma computeToToken_priced:
  "getPriceForAddress prices (address t) = Some p \<Longrightarrow> p \<noteq> 0 \<Longrightarrow>
   computeToToken rnd usd prices w t =
     (\<lparr>res_address = address t,
       amount = usd * weight t / 100 / p * (1 - fst (getRandomFeePercentage rnd w))\<rparr>,
      w\<lparr>drawn := Suc (drawn w)\<rparr>)"
  by (simp add: computeToToken_def truthy_def getRandomFeePercentage_def Let_def)

lemma computeToToken_unpriced:
  "truthy (getPriceForAddress prices (address t)) = None \<Longrightarrow>
   computeToToken rnd usd prices w t =
     (\<lparr>res_address = address t, amount = 0\<rparr>,
      emit (ConsoleError (''Prezzo non trovato per l'' @ [CHR 0x27] @ ''indirizzo '' @ address t)) w)"
  by (simp add: computeToToken_def)

lemma computeUpdatedToTokens_nth_priced:
  "\<forall>t \<in> set ts. truthy (getPriceForAddress prices (address t)) \<noteq> None \<Longrightarrow> i < length ts \<Longrightarrow>
   fst (computeUpdatedToTokens rnd w ts usd prices) ! i =
     fst (computeToToken rnd usd prices (w\<lparr>drawn := drawn w + i\<rparr>) (ts ! i))"
proof (induction ts arbitrary: w i)
  case Nil
  then show ?case by simp
next
  case (Cons t ts)
  obtain p where p: "getPriceForAddress prices (address t) = Some p" "p \<noteq> 0"
    using Cons.prems(1) by (auto simp: truthy_def split: option.splits if_splits)
  note step = computeToToken_priced [OF p, of rnd usd w]
  show ?case
  proof (cases i)
    case 0
    have "fst (computeToToken rnd usd prices w t) = fst (computeToToken rnd usd prices (w\<lparr>drawn := drawn w + 0\<rparr>) t)"
      by (rule computeToToken_drawn_only [THEN conjunct1]) simp
    with 0 show ?thesis by (simp add: split_beta Let_def)
  next
    case (Suc j)
    let ?w1 = "snd (computeToToken rnd usd prices w t)"
    have d: "drawn ?w1 = Suc (drawn w)" by (simp add: step)
    have j: "j < length ts" using Cons.prems(2) Suc by simp
    have all: "\<forall>t \<in> set ts. truthy (getPriceForAddress prices (address t)) \<noteq> None"
      using Cons.prems(1) by simp
    have "fst (computeUpdatedToTokens rnd ?w1 ts usd prices) ! j =
          fst (computeToToken rnd usd prices (?w1\<lparr>drawn := drawn ?w1 + j\<rparr>) (ts ! j))"
      by (rule Cons.IH [OF all j])
    also have "\<dots> = fst (computeToToken rnd usd prices (w\<lparr>drawn := drawn w + Suc j\<rparr>) (ts ! j))"
      by (rule computeToToken_drawn_only [THEN conjunct1]) (simp add: d)
    finally show ?thesis using Suc by (simp add: split_beta Let_def)
  qed
qed

lemma processMessage_priced:
  assumes "tokens (req_from r) = s # ss"
    and "getPriceForAddress (fst (getTokenPrices (fetch e) w (extractTokenAddresses r))) (address s) = Some sp"
    and "sp \<noteq> 0"
  shows "processMessage e w r =
     (let prices = fst (getTokenPrices (fetch e) w (extractTokenAddresses r));
          w1 = snd (getTokenPrices (fetch e) w (extractTokenAddresses r));
          out = computeUpdatedToTokens (mathRandom e) w1 (tokens (req_to r)) (weight s * sp) prices
      in (Inr (Some \<lparr>solver = publicKey (wallet e),
                      res_from = \<lparr>res_network = network (req_from r),
                                  res_tokens = map (\<lambda>token. \<lparr>res_address = address token, amount = weight token\<rparr>)
                                                 (tokens (req_from r))\<rparr>,
                      res_to = \<lparr>res_network = network (req_to r), res_tokens = fst out\<rparr>\<rparr>),
          snd out))"
  using assms by (simp add: processMessage_def truthy_def split_beta Let_def)

lemma processMessage_unpriced:
  assumes "tokens (req_from r) = s # ss"
    and "truthy (getPriceForAddress (fst (getTokenPrices (fetch e) w (extractTokenAddresses r))) (address s)) = None"
  shows "processMessage e w r =
     (Inr None, emit (LoggerError (''Price not found for '' @ address s))
                  (snd (getTokenPrices (fetch e) w (extractTokenAddresses r))))"
  using assms by (simp add: processMessage_def split_beta Let_def)

lemma lower_char_idem: "lower_char (lower_char c) = lower_char c"
  by (auto simp: lower_char_def)

lemma toLowerCase_idem: "toLowerCase (toLowerCase a) = toLowerCase a"
  by (simp add: toLowerCase_def lower_char_idem)

lemma getTokenPrices_Cons_cases:
  "fst (getTokenPrices f w (a # as)) =
     (case f a of
        JsonBody d \<Rightarrow> (case map_of d (toLowerCase a) of
                        Some usd \<Rightarrow> \<lparr>price_address = toLowerCase a, price = usd\<rparr> # fst (getTokenPrices f w as)
                      | None \<Rightarrow> fst (getTokenPrices f w as))
      | _ \<Rightarrow> fst (getTokenPrices f w as))"
  using getTokenPrices_prices_indep [of f "emit (ConsoleWarn (''Price not found for '' @ a)) w" as w]
    getTokenPrices_prices_indep [of f "emit (ConsoleError ''Error fetching token price:'') w" as w]
  by (simp add: split_beta split: fetch_result.splits option.splits)

lemma getPriceForAddress_Cons:
  "getPriceForAddress (p # ps) a =
     (if toLowerCase (price_address p) = toLowerCase a then Some (price p) else getPriceForAddress ps a)"
  by (simp add: getPriceForAddress_def)

lemma listed_address_has_price:
  "a \<in> set as \<Longrightarrow> f a = JsonBody d \<Longrightarrow> map_of d (toLowerCase a) = Some usd \<Longrightarrow>
   getPriceForAddress (fst (getTokenPrices f w as)) a \<noteq> None"
proof (induction as)
  case Nil
  then show ?case by simp
next
  case (Cons b bs)
  show ?case
  proof (cases "b = a")
    case True
    with Cons.prems show ?thesis
      by (simp add: getTokenPrices_Cons_cases getPriceForAddress_Cons toLowerCase_idem del: getTokenPrices.simps)
  next
    case False
    with Cons have ih: "getPriceForAddress (fst (getTokenPrices f w bs)) a \<noteq> None" by simp
    then show ?thesis
      by (simp add: getTokenPrices_Cons_cases getPriceForAddress_Cons del: getTokenPrices.simps split: fetch_result.splits option.splits)
  qed
qed

lemma getTokenPrices_remove_unlisted:
  assumes "getPriceForAddress (fst (getTokenPrices f w (as @ a # bs))) a = None"
  shows "fst (getTokenPrices f w (as @ a # bs)) = fst (getTokenPrices f w (as @ bs))"
proof -
  have no: "\<And>d usd. f a = JsonBody d \<Longrightarrow> map_of d (toLowerCase a) \<noteq> Some usd"
  proof
    fix d usd assume "f a = JsonBody d" "map_of d (toLowerCase a) = Some usd"
    from listed_address_has_price [of a "as @ a # bs" f d usd w] this assms show False by simp
  qed
  have step: "fst (getTokenPrices f w' (a # bs)) = fst (getTokenPrices f w' bs)" for w'
    using no by (cases "f a") (auto simp: getTokenPrices_Cons_cases simp del: getTokenPrices.simps split: option.splits)
  show ?thesis
  proof (induction as)
    case Nil
    show ?case using step by simp
  next
    case (Cons c cs)
    then show ?case
      by (simp add: getTokenPrices_Cons_cases del: getTokenPrices.simps split: fetch_result.splits option.splits)
  qed
qed

lemma computeUpdatedToTokens_skip_unpriced:
  assumes "truthy (getPriceForAddress prices (address t)) = None"
  shows "fst (computeUpdatedToTokens rnd w (xs @ t # ys) usd prices) =
           take (length xs) (fst (computeUpdatedToTokens rnd w (xs @ ys) usd prices))
           @ \<lparr>res_address = address t, amount = 0\<rparr>
           # drop (length xs) (fst (computeUpdatedToTokens rnd w (xs @ ys) usd prices))"
proof -
  let ?A = "computeUpdatedToTokens rnd w xs usd prices"
  let ?w1 = "snd ?A"
  let ?T = "computeToToken rnd usd prices ?w1 t"
  have tok: "fst ?T = \<lparr>res_address = address t, amount = 0\<rparr>" and d: "drawn (snd ?T) = drawn ?w1"
    by (simp_all add: computeToToken_unpriced [OF assms])
  have same: "fst (computeUpdatedToTokens rnd (snd ?T) ys usd prices) = fst (computeUpdatedToTokens rnd ?w1 ys usd prices)"
    by (rule computeUpdatedToTokens_drawn_only [THEN conjunct1]) (rule d)
  have l: "length (fst ?A) = length xs" by (rule computeUpdatedToTokens_length)
  have "fst (computeUpdatedToTokens rnd w (xs @ t # ys) usd prices) =
      fst ?A @ fst ?T # fst (computeUpdatedToTokens rnd (snd ?T) ys usd prices)"
    by (simp add: computeUpdatedToTokens_append split_beta Let_def)
  then have full: "fst (computeUpdatedToTokens rnd w (xs @ t # ys) usd prices) =
      fst ?A @ \<lparr>res_address = address t, amount = 0\<rparr> # fst (computeUpdatedToTokens rnd ?w1 ys usd prices)"
    by (simp only: tok same)
  have less: "fst (computeUpdatedToTokens rnd w (xs @ ys) usd prices) =
      fst ?A @ fst (computeUpdatedToTokens rnd ?w1 ys usd prices)"
    by (simp add: computeUpdatedToTokens_append split_beta Let_def)
  show ?thesis by (simp add: full less l)
qed


subsection \<open>The log only grows\<close>

lemma computeToToken_logs_mono:
  "set (logs w) \<subseteq> set (logs (snd (computeToToken rnd usd prices w t)))"
  by (auto simp: computeToToken_def getRandomFeePercentage_def Let_def split: option.splits)

lemma computeUpdatedToTokens_logs_mono:
  "set (logs w) \<subseteq> set (logs (snd (computeUpdatedToTokens rnd w ts usd prices)))"
proof (induction ts arbitrary: w)
  case Nil
  show ?case by simp
next
  case (Cons t ts)
  have "set (logs w) \<subseteq> set (logs (snd (computeToToken rnd usd prices w t)))"
    by (rule computeToToken_logs_mono)
  also have "\<dots> \<subseteq> set (logs (snd (computeUpdatedToTokens rnd (snd (computeToToken rnd usd prices w t)) ts usd prices)))"
    by (rule Cons.IH)
  finally show ?case by (simp add: split_beta Let_def)
qed

lemma computeUpdatedToTokens_logs_unpriced:
  assumes "truthy (getPriceForAddress prices (address t)) = None"
  shows "ConsoleError (''Prezzo non trovato per l'' @ [CHR 0x27] @ ''indirizzo '' @ address t)
           \<in> set (logs (snd (computeUpdatedToTokens rnd w (xs @ t # ys) usd prices)))"
proof -
  let ?w1 = "snd (computeUpdatedToTokens rnd w xs usd prices)"
  let ?T = "computeToToken rnd usd prices ?w1 t"
  have "ConsoleError (''Prezzo non trovato per l'' @ [CHR 0x27] @ ''indirizzo '' @ address t) \<in> set (logs (snd ?T))"
    by (simp add: computeToToken_unpriced [OF assms])
  moreover have "set (logs (snd ?T)) \<subseteq> set (logs (snd (computeUpdatedToTokens rnd (snd ?T) ys usd prices)))"
    by (rule computeUpdatedToTokens_logs_mono)
  moreover have "snd (computeUpdatedToTokens rnd w (xs @ t # ys) usd prices) =
      snd (computeUpdatedToTokens rnd (snd ?T) ys usd prices)"
    by (simp add: computeUpdatedToTokens_append split_beta Let_def)
  ultimately show ?thesis by auto
qed


subsection \<open>The fee and the amount after the fee\<close>

lemma computeUpdatedToTokens_nth_any:
  "i < length ts \<Longrightarrow>
   \<exists>w'. fst (computeUpdatedToTokens rnd w ts usd prices) ! i = fst (computeToToken rnd usd prices w' (ts ! i))"
proof (induction ts arbitrary: w i)
  case Nil
  then show ?case by simp
next
  case (Cons t ts)
  show ?case
  proof (cases i)
    case 0
    then show ?thesis by (auto simp: split_beta Let_def)
  next
    case (Suc j)
    with Cons.prems have "j < length ts" by simp
    from Cons.IH [OF this, of "snd (computeToToken rnd usd prices w t)"] Suc
    show ?thesis by (simp add: split_beta Let_def)
  qed
qed

lemma fee_bounds:
  assumes "0 \<le> rnd (drawn w)" "rnd (drawn w) < 1"
  shows "1 / 1000 \<le> fst (getRandomFeePercentage rnd w)" "fst (getRandomFeePercentage rnd w) \<le> 1 / 100"
  using assms by (simp_all add: getRandomFeePercentage_def)

lemma between_scaled:
  fixes q f :: rat
  assumes "1 / 1000 \<le> f" "f \<le> 1 / 100"
  shows "min (q * (1 - 1 / 100)) (q * (1 - 1 / 1000)) \<le> q * (1 - f)"
    and "q * (1 - f) \<le> max (q * (1 - 1 / 100)) (q * (1 - 1 / 1000))"
proof -
  have a: "1 - 1 / 100 \<le> 1 - f" "1 - f \<le> 1 - 1 / 1000" using assms by simp_all
  show "min (q * (1 - 1 / 100)) (q * (1 - 1 / 1000)) \<le> q * (1 - f)"
  proof (cases "0 \<le> q")
    case True
    then have "q * (1 - 1 / 100) \<le> q * (1 - f)" using a(1) by (rule mult_left_mono [rotated])
    then show ?thesis by (simp add: min_le_iff_disj)
  next
    case False
    then have "q \<le> 0" by simp
    then have "q * (1 - 1 / 1000) \<le> q * (1 - f)" using a(2) by (rule mult_left_mono_neg [rotated])
    then show ?thesis by (simp add: min_le_iff_disj)
  qed
  show "q * (1 - f) \<le> max (q * (1 - 1 / 100)) (q * (1 - 1 / 1000))"
  proof (cases "0 \<le> q")
    case True
    then have "q * (1 - f) \<le> q * (1 - 1 / 1000)" using a(2) by (rule mult_left_mono [rotated])
    then show ?thesis by (simp add: le_max_iff_disj)
  next
    case False
    then have "q \<le> 0" by simp
    then have "q * (1 - f) \<le> q * (1 - 1 / 100)" using a(1) by (rule mult_left_mono_neg [rotated])
    then show ?thesis by (simp add: le_max_iff_disj)
  qed
qed


subsection \<open>The callbacks leave the subscription alone\<close>





subsection \<open>What a callback publishes, and the delivery of messages\<close>

lemma processMessage_published: "published (snd (processMessage e w r)) = published w"
  by (simp add: processMessage_def Let_def split_beta getTokenPrices_frame computeUpdatedToTokens_frame
      split: list.splits option.splits)

lemma sendResponse_failed:
  "fst (sendResponse e w b r) = Inl err \<Longrightarrow> published (snd (sendResponse e w b r)) = published w"
  by (cases "lightNode e"; cases r; cases "lightPush e (solverResponseTopic b) (encodeResponse e (the r))")
     (simp_all add: sendResponse_def Let_def)

lemma sendResponse_sent:
  "fst (sendResponse e w b r) = Inr u \<Longrightarrow>
     \<exists>resp. r = Some resp \<and>
       published (snd (sendResponse e w b r)) = published w @ [(solverResponseTopic b, encodeResponse e resp)]"
  by (cases "lightNode e"; cases r; cases "lightPush e (solverResponseTopic b) (encodeResponse e (the r))")
     (simp_all add: sendResponse_def Let_def)

lemma callback_decoded:
  "decodeRequest e p = Inr rq \<Longrightarrow>
     callback e w (Some p) =
       (case fst (processMessage e (emit (LoggerLog ''New request for quotes received.'') w) rq) of
          Inl err \<Rightarrow> (Inl err, snd (processMessage e (emit (LoggerLog ''New request for quotes received.'') w) rq))
        | Inr response \<Rightarrow>
            sendResponse e (snd (processMessage e (emit (LoggerLog ''New request for quotes received.'') w) rq))
              (bucket rq) response)"
  by (simp add: callback_def split_beta split: sum.splits prod.splits)


lemma callback_sent:
  assumes "fst (callback e w (Some p)) = Inr u"
  shows "\<exists>rq resp. decodeRequest e p = Inr rq \<and>
           fst (processMessage e (emit (LoggerLog ''New request for quotes received.'') w) rq) = Inr (Some resp) \<and>
           published (snd (callback e w (Some p))) =
             published w @ [(solverResponseTopic (bucket rq), encodeResponse e resp)]"
proof (cases "decodeRequest e p")
  case (Inl x)
  with assms show ?thesis by (simp add: callback_def)
next
  case (Inr rq)
  let ?w0 = "emit (LoggerLog ''New request for quotes received.'') w"
  show ?thesis
  proof (cases "fst (processMessage e ?w0 rq)")
    case (Inl x)
    with assms Inr show ?thesis by (simp add: callback_decoded)
  next
    case r: (Inr response)
    from assms Inr r
    have "fst (sendResponse e (snd (processMessage e ?w0 rq)) (bucket rq) response) = Inr u"
      by (simp add: callback_decoded)
    from sendResponse_sent [OF this] Inr r show ?thesis
      using processMessage_published [of e ?w0 rq] by (auto simp add: callback_decoded)
  qed
qed




lemma topic_inject: "(solverResponseTopic b' = userContentTopic b) = (b' = b)"
  by (simp add: solverResponseTopic_def userContentTopic_def)


subsection \<open>The shape of a digest\<close>

lemma length_sha256: "length (sha256 m) = 8"
  by (simp add: sha256_def Let_def split: prod.splits)

lemma length_hex32: "length (hex32 x) = 8"
  by (simp add: hex32_def)

lemma length_concat_hex32: "length (concat (map hex32 ws)) = 8 * length ws"
  by (induction ws) (simp_all add: length_hex32)

lemma length_sha256_hex: "length (sha256_hex s) = 64"
  by (simp add: sha256_hex_def length_concat_hex32 length_sha256)

lemma hex_digit_range: "hex_digit n \<in> set hexDigits"
proof -
  have "n mod 16 < length hexDigits" by (simp add: hexDigits_def)
  then show ?thesis unfolding hex_digit_def by (rule nth_mem)
qed

lemma set_hex32: "set (hex32 x) \<subseteq> set hexDigits"
  unfolding hex32_def using hex_digit_range by auto

lemma set_sha256_hex: "set (sha256_hex s) \<subseteq> set hexDigits"
  unfolding sha256_hex_def using set_hex32 by auto


subsection \<open>Evaluating the examples\<close>

lemmas scenario_defs =
  scenarioEnv_def scenarioRequest_def scenarioPrices_def tableFetch_def w0_def
  extractTokenAddresses_def toLowerCase_def lower_char_def getPriceForAddress_def truthy_def

lemma scenario_answer:
  "fst (processMessage (scenarioEnv scenarioPrices zeroFeeDraw) w scenarioRequest) =
     Inr (Some \<lparr>solver = ''0x02feed'',
                 res_from = \<lparr>res_network = ''mainnet'', res_tokens = [\<lparr>res_address = ''0xAAA'', amount = 1000\<rparr>]\<rparr>,
                 res_to = \<lparr>res_network = ''base'',
                           res_tokens = [\<lparr>res_address = ''0xBBB'', amount = 150\<rparr>,
                                         \<lparr>res_address = ''0xCCC'', amount = 140\<rparr>]\<rparr>\<rparr>)"
  by (simp add: processMessage_def scenario_defs computeToToken_def getRandomFeePercentage_def zeroFeeDraw_def Let_def)


subsection \<open>Reading back what the writer wrote\<close>





lemma varint_nonempty: "varint n \<noteq> []"
  by (subst varint.simps) simp

































subsection \<open>The length of an encoding\<close>








subsection \<open>The decoded object\<close>






lemma Request_decode_malformed: "Request_decode [255] = Inl RangeError"
  by (subst Request_decode_def, subst decodeLoop.simps) (simp add: readUint32_def)


section \<open>The claims\<close>

text \<open>
  C1. If the source token's price is absent from the looked-up price list,
  \<open>processMessage\<close> produces no Quote Response: it returns \<open>undefined\<close>, not a response
  with zero amounts. The solver's \<open>callback\<close> then publishes nothing for that request:
  it hands the absent response to \<open>sendResponse\<close>, which throws before the push (when
  the light node cannot be started, or else in the encoder), so the callback ends with
  that exception and the list of published messages is as before.
\<close>

theorem C1_missing_source_price:
  assumes "tokens (req_from r) = s # ss"
    and "getPriceForAddress (fst (getTokenPrices (fetch e) w (extractTokenAddresses r))) (address s) = None"
  shows "fst (processMessage e w r) = Inr None \<and>
         (\<forall>p. decodeRequest e p = Inr r \<longrightarrow>
            published (snd (callback e w (Some p))) = published w \<and>
            fst (callback e w (Some p)) = Inl (case lightNode e of Some err \<Rightarrow> err | None \<Rightarrow> TypeError))"
proof -
  have u: "truthy (getPriceForAddress (fst (getTokenPrices (fetch e) w' (extractTokenAddresses r))) (address s)) = None" for w'
  proof -
    have "fst (getTokenPrices (fetch e) w' (extractTokenAddresses r)) =
          fst (getTokenPrices (fetch e) w (extractTokenAddresses r))"
      by (rule getTokenPrices_prices_indep)
    then show ?thesis using assms(2) by (simp add: truthy_def)
  qed
  have pm: "\<And>w'. processMessage e w' r =
      (Inr None, emit (LoggerError (''Price not found for '' @ address s))
                   (snd (getTokenPrices (fetch e) w' (extractTokenAddresses r))))"
    by (rule processMessage_unpriced [OF assms(1) u])
  have "published (snd (callback e w (Some p))) = published w \<and>
        fst (callback e w (Some p)) = Inl (case lightNode e of Some err \<Rightarrow> err | None \<Rightarrow> TypeError)"
    if "decodeRequest e p = Inr r" for p
    using that
    by (simp add: callback_def pm sendResponse_def Let_def getTokenPrices_frame split: option.splits)
  then show ?thesis by (simp add: pm)
qed

theorem C1_missing_source_price_witness:
  "fst (processMessage (scenarioEnv [(''0xbbb'', 2), (''0xccc'', 5)] (\<lambda>n. 1 / 2)) w0 scenarioRequest) = Inr None \<and>
   published (snd (callback (scenarioEnv [(''0xbbb'', 2), (''0xccc'', 5)] (\<lambda>n. 1 / 2)) w0 (Some [1]))) = [] \<and>
   fst (callback (scenarioEnv [(''0xbbb'', 2), (''0xccc'', 5)] (\<lambda>n. 1 / 2)) w0 (Some [1])) = Inl TypeError"
proof -
  let ?e = "scenarioEnv [(''0xbbb'', 2), (''0xccc'', 5)] (\<lambda>n. 1 / 2)"
  have h1: "tokens (req_from scenarioRequest) = \<lparr>address = ''0xAAA'', weight = 1000\<rparr> # []"
    by (simp add: scenarioRequest_def)
  have h2: "getPriceForAddress
      (fst (getTokenPrices (fetch ?e) w0 (extractTokenAddresses scenarioRequest)))
      (address \<lparr>address = ''0xAAA'', weight = 1000\<rparr>) = None"
    by (simp add: scenario_defs)
  have h3: "decodeRequest ?e [1] = Inr scenarioRequest" "lightNode ?e = None" "published w0 = []"
    by (simp_all add: scenarioEnv_def w0_def)
  from C1_missing_source_price [OF h1 h2] h3 show ?thesis by simp
qed

text \<open>
  C2 (as amended). For every request whose first source token has a non-zero price on
  the price list and in which every destination token's address has a non-zero price
  on the list, and for every sequence of draws, \<open>processMessage\<close> returns a response
  whose i-th destination amount is
  \<open>((sourceWeight * sourcePrice) * destWeight / 100 / destPrice) * (1 - fee)\<close>, where
  \<open>fee\<close> is what \<open>getRandomFeePercentage\<close> returns at the i-th draw: each amount is
  computed from its own token only, with no normalisation across the list. In the
  scenario (1000 of \<open>0xAAA\<close> at price 1 into 30 percent \<open>0xBBB\<close> at price 2 and 70 percent
  \<open>0xCCC\<close> at price 5, fee 0) the amounts are 150 and 140: the witness below.
\<close>

theorem C2_destination_amounts:
  assumes "tokens (req_from r) = s # ss"
    and "prices = fst (getTokenPrices (fetch e) w (extractTokenAddresses r))"
    and "getPriceForAddress prices (address s) = Some sp" and "sp \<noteq> 0"
    and "\<forall>i < length (tokens (req_to r)).
           getPriceForAddress prices (address (tokens (req_to r) ! i)) = Some (dp i) \<and> dp i \<noteq> 0"
  shows "\<exists>resp w'. processMessage e w r = (Inr (Some resp), w') \<and>
           length (res_tokens (res_to resp)) = length (tokens (req_to r)) \<and>
           (\<forall>i < length (tokens (req_to r)).
              res_tokens (res_to resp) ! i =
                \<lparr>res_address = address (tokens (req_to r) ! i),
                 amount = ((weight s * sp) * weight (tokens (req_to r) ! i) / 100 / dp i)
                          * (1 - fst (getRandomFeePercentage (mathRandom e) (w\<lparr>drawn := drawn w + i\<rparr>)))\<rparr>)"
proof -
  let ?ts = "tokens (req_to r)"
  let ?G = "getTokenPrices (fetch e) w (extractTokenAddresses r)"
  let ?out = "computeUpdatedToTokens (mathRandom e) (snd ?G) ?ts (weight s * sp) prices"
  have sp': "getPriceForAddress (fst ?G) (address s) = Some sp"
    using assms(2,3) by simp
  have pm: "processMessage e w r =
      (Inr (Some \<lparr>solver = publicKey (wallet e),
                   res_from = \<lparr>res_network = network (req_from r),
                               res_tokens = map (\<lambda>token. \<lparr>res_address = address token, amount = weight token\<rparr>)
                                              (tokens (req_from r))\<rparr>,
                   res_to = \<lparr>res_network = network (req_to r), res_tokens = fst ?out\<rparr>\<rparr>),
       snd ?out)"
    using processMessage_priced [OF assms(1) sp' assms(4)] assms(2) by (simp add: Let_def)
  have all: "\<forall>t \<in> set ?ts. truthy (getPriceForAddress prices (address t)) \<noteq> None"
  proof
    fix t assume "t \<in> set ?ts"
    then obtain i where "i < length ?ts" "t = ?ts ! i" by (auto simp: in_set_conv_nth)
    with assms(5) show "truthy (getPriceForAddress prices (address t)) \<noteq> None"
      by (simp add: truthy_def)
  qed
  have d: "drawn (snd ?G) = drawn w" by (simp add: getTokenPrices_frame)
  have nth: "fst ?out ! i =
      \<lparr>res_address = address (?ts ! i),
       amount = ((weight s * sp) * weight (?ts ! i) / 100 / dp i)
                * (1 - fst (getRandomFeePercentage (mathRandom e) (w\<lparr>drawn := drawn w + i\<rparr>)))\<rparr>"
    if i: "i < length ?ts" for i
  proof -
    have p: "getPriceForAddress prices (address (?ts ! i)) = Some (dp i)" "dp i \<noteq> 0"
      using assms(5) i by simp_all
    have "fst ?out ! i = fst (computeToToken (mathRandom e) (weight s * sp) prices ((snd ?G)\<lparr>drawn := drawn (snd ?G) + i\<rparr>) (?ts ! i))"
      by (rule computeUpdatedToTokens_nth_priced [OF all i])
    also have "\<dots> = fst (computeToToken (mathRandom e) (weight s * sp) prices (w\<lparr>drawn := drawn w + i\<rparr>) (?ts ! i))"
      by (rule computeToToken_drawn_only [THEN conjunct1]) (simp add: d)
    also have "\<dots> = \<lparr>res_address = address (?ts ! i),
       amount = ((weight s * sp) * weight (?ts ! i) / 100 / dp i)
                * (1 - fst (getRandomFeePercentage (mathRandom e) (w\<lparr>drawn := drawn w + i\<rparr>)))\<rparr>"
      by (simp add: computeToToken_priced [OF p])
    finally show ?thesis .
  qed
  have len: "length (fst ?out) = length ?ts" by (rule computeUpdatedToTokens_length)
  show ?thesis using nth len by (simp add: pm)
qed

theorem C2_destination_amounts_witness:
  "fst (getRandomFeePercentage zeroFeeDraw w0) = 0 \<and>
   (\<exists>resp w'. processMessage (scenarioEnv scenarioPrices zeroFeeDraw) w0 scenarioRequest = (Inr (Some resp), w') \<and>
      res_tokens (res_to resp) = [\<lparr>res_address = ''0xBBB'', amount = 150\<rparr>, \<lparr>res_address = ''0xCCC'', amount = 140\<rparr>])"
proof -
  let ?e = "scenarioEnv scenarioPrices zeroFeeDraw"
  let ?prices = "fst (getTokenPrices (fetch ?e) w0 (extractTokenAddresses scenarioRequest))"
  have h1: "tokens (req_from scenarioRequest) = \<lparr>address = ''0xAAA'', weight = 1000\<rparr> # []"
    by (simp add: scenarioRequest_def)
  have h3: "getPriceForAddress ?prices (address \<lparr>address = ''0xAAA'', weight = 1000\<rparr>) = Some 1"
    by (simp add: scenario_defs)
  have h4: "(1::number) \<noteq> 0" by simp
  have h5: "\<forall>i < length (tokens (req_to scenarioRequest)).
      getPriceForAddress ?prices (address (tokens (req_to scenarioRequest) ! i)) = Some ((\<lambda>i. if i = 0 then 2 else 5) i)
      \<and> (\<lambda>i. if i = 0 then 2 else 5 :: number) i \<noteq> 0"
    by (simp add: scenario_defs less_Suc_eq)
  have fee: "fst (getRandomFeePercentage zeroFeeDraw w) = 0" for w
    by (simp add: getRandomFeePercentage_def zeroFeeDraw_def)
  from C2_destination_amounts [OF h1 refl h3 h4 h5]
  obtain resp w' where pm: "processMessage ?e w0 scenarioRequest = (Inr (Some resp), w')"
    and len: "length (res_tokens (res_to resp)) = 2"
    and nth: "\<And>i. i < 2 \<Longrightarrow> res_tokens (res_to resp) ! i =
        \<lparr>res_address = address (tokens (req_to scenarioRequest) ! i),
         amount = ((1000 * 1) * weight (tokens (req_to scenarioRequest) ! i) / 100 / (if i = 0 then 2 else 5))
                  * (1 - fst (getRandomFeePercentage (mathRandom ?e) (w0\<lparr>drawn := drawn w0 + i\<rparr>)))\<rparr>"
    by (auto simp: scenarioRequest_def)
  have fee': "fst (getRandomFeePercentage (mathRandom ?e) w) = 0" for w
    by (simp add: getRandomFeePercentage_def scenarioEnv_def zeroFeeDraw_def)
  have "res_tokens (res_to resp) ! 0 = \<lparr>res_address = ''0xBBB'', amount = 150\<rparr>"
    using nth [of 0] by (simp add: scenarioRequest_def fee')
  moreover have "res_tokens (res_to resp) ! 1 = \<lparr>res_address = ''0xCCC'', amount = 140\<rparr>"
    using nth [of 1] by (simp add: scenarioRequest_def fee')
  ultimately have "res_tokens (res_to resp) = [\<lparr>res_address = ''0xBBB'', amount = 150\<rparr>, \<lparr>res_address = ''0xCCC'', amount = 140\<rparr>]"
    using len by (simp add: list_eq_iff_nth_eq less_Suc_eq numeral_2_eq_2)
  with pm fee show ?thesis by blast
qed

text \<open>
  The claim as stated gives 70 for \<open>0xCCC\<close> in the scenario. With the fee forced to 0
  the code returns 1000 * 1 * 70 / 100 / 5 = 140.
\<close>

theorem C2_scenario_counterexample:
  "fst (getRandomFeePercentage zeroFeeDraw w0) = 0 \<and>
   fst (processMessage (scenarioEnv scenarioPrices zeroFeeDraw) w0 scenarioRequest) =
     Inr (Some \<lparr>solver = ''0x02feed'',
                 res_from = \<lparr>res_network = ''mainnet'', res_tokens = [\<lparr>res_address = ''0xAAA'', amount = 1000\<rparr>]\<rparr>,
                 res_to = \<lparr>res_network = ''base'',
                           res_tokens = [\<lparr>res_address = ''0xBBB'', amount = 150\<rparr>,
                                         \<lparr>res_address = ''0xCCC'', amount = 140\<rparr>]\<rparr>\<rparr>) \<and>
   fst (processMessage (scenarioEnv scenarioPrices zeroFeeDraw) w0 scenarioRequest) \<noteq>
     Inr (Some \<lparr>solver = ''0x02feed'',
                 res_from = \<lparr>res_network = ''mainnet'', res_tokens = [\<lparr>res_address = ''0xAAA'', amount = 1000\<rparr>]\<rparr>,
                 res_to = \<lparr>res_network = ''base'',
                           res_tokens = [\<lparr>res_address = ''0xBBB'', amount = 150\<rparr>,
                                         \<lparr>res_address = ''0xCCC'', amount = 70\<rparr>]\<rparr>\<rparr>)"
  by (simp add: processMessage_def scenario_defs computeToToken_def getRandomFeePercentage_def zeroFeeDraw_def Let_def)







text \<open>
  C5. If a destination token's address has no price on the price list, that token's
  response amount is exactly 0 and the condition is only logged (a \<open>console.error\<close>
  line), while every other destination token's amount is what it is for the request
  with that token removed. The quote is not aborted: both requests get a response.
\<close>

theorem C5_unpriced_destination:
  assumes "tokens (req_from r) = s # ss"
    and "tokens (req_to r) = xs @ t # ys"
    and "prices = fst (getTokenPrices (fetch e) w (extractTokenAddresses r))"
    and "getPriceForAddress prices (address t) = None"
    and "getPriceForAddress prices (address s) = Some sp" and "sp \<noteq> 0"
  shows "\<exists>resp resp' w1 w2.
      processMessage e w r = (Inr (Some resp), w1) \<and>
      processMessage e w (r\<lparr>req_to := (req_to r)\<lparr>tokens := xs @ ys\<rparr>\<rparr>) = (Inr (Some resp'), w2) \<and>
      length (res_tokens (res_to resp')) = length xs + length ys \<and>
      res_tokens (res_to resp) =
        take (length xs) (res_tokens (res_to resp'))
        @ \<lparr>res_address = address t, amount = 0\<rparr>
        # drop (length xs) (res_tokens (res_to resp')) \<and>
      ConsoleError (''Prezzo non trovato per l'' @ [CHR 0x27] @ ''indirizzo '' @ address t) \<in> set (logs w1)"
proof -
  let ?r' = "r\<lparr>req_to := (req_to r)\<lparr>tokens := xs @ ys\<rparr>\<rparr>"
  let ?as = "map address (s # ss) @ map address xs"
  let ?bs = "map address ys"
  let ?G = "getTokenPrices (fetch e) w (extractTokenAddresses r)"
  let ?G' = "getTokenPrices (fetch e) w (extractTokenAddresses ?r')"
  have a: "extractTokenAddresses r = ?as @ address t # ?bs"
    by (simp add: extractTokenAddresses_def assms(1,2))
  have a': "extractTokenAddresses ?r' = ?as @ ?bs"
    by (simp add: extractTokenAddresses_def assms(1))
  have same_prices: "fst ?G' = prices"
    unfolding a' assms(3) a
    by (rule getTokenPrices_remove_unlisted [symmetric]) (use assms(3,4) a in simp)
  have un: "truthy (getPriceForAddress prices (address t)) = None"
    using assms(4) by (simp add: truthy_def)
  have sp: "getPriceForAddress (fst ?G) (address s) = Some sp" using assms(3,5) by simp
  have sp': "getPriceForAddress (fst ?G') (address s) = Some sp" using same_prices assms(5) by simp
  let ?out = "computeUpdatedToTokens (mathRandom e) (snd ?G) (xs @ t # ys) (weight s * sp) prices"
  let ?out' = "computeUpdatedToTokens (mathRandom e) (snd ?G') (xs @ ys) (weight s * sp) prices"
  have pm: "processMessage e w r =
      (Inr (Some \<lparr>solver = publicKey (wallet e),
                   res_from = \<lparr>res_network = network (req_from r),
                               res_tokens = map (\<lambda>token. \<lparr>res_address = address token, amount = weight token\<rparr>)
                                              (tokens (req_from r))\<rparr>,
                   res_to = \<lparr>res_network = network (req_to r), res_tokens = fst ?out\<rparr>\<rparr>),
       snd ?out)"
    using processMessage_priced [OF assms(1) sp assms(6)] assms(2,3) by (simp add: Let_def)
  have f': "tokens (req_from ?r') = s # ss" using assms(1) by simp
  have pm': "processMessage e w ?r' =
      (Inr (Some \<lparr>solver = publicKey (wallet e),
                   res_from = \<lparr>res_network = network (req_from r),
                               res_tokens = map (\<lambda>token. \<lparr>res_address = address token, amount = weight token\<rparr>)
                                              (tokens (req_from r))\<rparr>,
                   res_to = \<lparr>res_network = network (req_to r), res_tokens = fst ?out'\<rparr>\<rparr>),
       snd ?out')"
    using processMessage_priced [OF f' sp' assms(6)] same_prices by (simp add: Let_def)
  have d: "drawn (snd ?G') = drawn (snd ?G)" by (simp add: getTokenPrices_frame)
  have eq: "fst ?out' = fst (computeUpdatedToTokens (mathRandom e) (snd ?G) (xs @ ys) (weight s * sp) prices)"
    by (rule computeUpdatedToTokens_drawn_only [THEN conjunct1, OF d])
  have skip: "fst ?out = take (length xs) (fst ?out') @ \<lparr>res_address = address t, amount = 0\<rparr> # drop (length xs) (fst ?out')"
    unfolding eq by (rule computeUpdatedToTokens_skip_unpriced [OF un])
  have len: "length (fst ?out') = length xs + length ys"
    by (simp add: computeUpdatedToTokens_length)
  have lg: "ConsoleError (''Prezzo non trovato per l'' @ [CHR 0x27] @ ''indirizzo '' @ address t) \<in> set (logs (snd ?out))"
    by (rule computeUpdatedToTokens_logs_unpriced [OF un])
  show ?thesis
    unfolding pm pm' using skip len lg by simp
qed

theorem C5_unpriced_destination_witness:
  "\<exists>resp resp' w1 w2.
      processMessage (scenarioEnv [(''0xaaa'', 1), (''0xccc'', 5)] zeroFeeDraw) w0 scenarioRequest = (Inr (Some resp), w1) \<and>
      processMessage (scenarioEnv [(''0xaaa'', 1), (''0xccc'', 5)] zeroFeeDraw) w0
        (scenarioRequest\<lparr>req_to := (req_to scenarioRequest)\<lparr>tokens := [\<lparr>address = ''0xCCC'', weight = 70\<rparr>]\<rparr>\<rparr>)
        = (Inr (Some resp'), w2) \<and>
      length (res_tokens (res_to resp')) = 1 \<and>
      res_tokens (res_to resp) = \<lparr>res_address = ''0xBBB'', amount = 0\<rparr> # res_tokens (res_to resp')"
proof -
  let ?e = "scenarioEnv [(''0xaaa'', 1), (''0xccc'', 5)] zeroFeeDraw"
  let ?prices = "fst (getTokenPrices (fetch ?e) w0 (extractTokenAddresses scenarioRequest))"
  have h1: "tokens (req_from scenarioRequest) = \<lparr>address = ''0xAAA'', weight = 1000\<rparr> # []"
    by (simp add: scenarioRequest_def)
  have h2: "tokens (req_to scenarioRequest) =
      [] @ \<lparr>address = ''0xBBB'', weight = 30\<rparr> # [\<lparr>address = ''0xCCC'', weight = 70\<rparr>]"
    by (simp add: scenarioRequest_def)
  have h4: "getPriceForAddress ?prices (address \<lparr>address = ''0xBBB'', weight = 30\<rparr>) = None"
    by (simp add: scenario_defs)
  have h5: "getPriceForAddress ?prices (address \<lparr>address = ''0xAAA'', weight = 1000\<rparr>) = Some 1"
    by (simp add: scenario_defs)
  have h6: "(1::number) \<noteq> 0" by simp
  from C5_unpriced_destination [OF h1 h2 refl h4 h5 h6] show ?thesis by simp blast
qed

text \<open>
  C6. The request topic is the literal \<open>/iLayer/1/rfq/proto\<close> on the requester (publish)
  and on the solver (subscribe), and for every bucket \<open>b\<close> the topic the requester
  listens on and the topic the solver publishes the response on are the same string
  \<open>/iLayer/1/\<close> + \<open>b\<close> + \<open>/proto\<close>; two such topics are equal only for equal buckets.
  These are the topics the services use: \<open>listenToQuoteRequests\<close> subscribes to the
  request topic and \<open>listenToQuoteResponses\<close> to the topic of the requester's own
  bucket; a \<open>sendRequest\<close> that succeeds has published exactly one message, the encoded
  sample request carrying the requester's bucket, on the request topic, and one that
  fails has published nothing; a \<open>sendResponse\<close> that succeeds has published exactly one
  message, the encoded response, on the topic of the bucket it was given; and a
  solver's callback that succeeds has published exactly one message, the encoded
  result of \<open>processMessage\<close>, on the topic of the bucket named in the request it
  decoded. So correlation by topic equality holds: a solver subscribed to the request
  topic is handed exactly the messages on the requester's publishing topic, and a
  requester listening with bucket \<open>b\<close> is handed a response published for bucket \<open>b'\<close>
  exactly if \<open>b' = b\<close>.
\<close>

theorem C6_topics:
  "userRequestTopic = ''/iLayer/1/rfq/proto'' \<and>
   solverContentTopic = ''/iLayer/1/rfq/proto'' \<and>
   userContentTopic b = ''/iLayer/1/'' @ b @ ''/proto'' \<and>
   solverResponseTopic b = ''/iLayer/1/'' @ b @ ''/proto'' \<and>
   (solverResponseTopic b' = userContentTopic b \<longleftrightarrow> b' = b) \<and>
   listenToQuoteRequests True w =
     (False, emit (LoggerLog ''Subscribed to quotes request topic.'')
               (w\<lparr>subscription := Some ''/iLayer/1/rfq/proto''\<rparr>)) \<and>
   listenToQuoteResponses e True w =
     (False, emit (LoggerLog ''Subscribed to quotes response topic.'')
               (w\<lparr>subscription := Some (''/iLayer/1/'' @ getBucketFromPublicKey (wallet e) @ ''/proto'')\<rparr>)) \<and>
   (fst (sendRequest e w) = Inr () \<longrightarrow>
      published (snd (sendRequest e w)) =
        published w @
          [(''/iLayer/1/rfq/proto'', encodeRequest e (sampleMessage (getBucketFromPublicKey (wallet e))))]) \<and>
   (fst (sendRequest e w) \<noteq> Inr () \<longrightarrow> published (snd (sendRequest e w)) = published w) \<and>
   (fst (sendResponse e w b r) = Inr () \<longrightarrow>
      (\<exists>resp. r = Some resp \<and>
         published (snd (sendResponse e w b r)) =
           published w @ [(''/iLayer/1/'' @ b @ ''/proto'', encodeResponse e resp)])) \<and>
   (fst (sendResponse e w b r) \<noteq> Inr () \<longrightarrow> published (snd (sendResponse e w b r)) = published w) \<and>
   (fst (callback e w (Some p)) = Inr () \<longrightarrow>
      (\<exists>rq resp. decodeRequest e p = Inr rq \<and>
         fst (processMessage e (emit (LoggerLog ''New request for quotes received.'') w) rq) = Inr (Some resp) \<and>
         published (snd (callback e w (Some p))) =
           published w @ [(''/iLayer/1/'' @ bucket rq @ ''/proto'', encodeResponse e resp)])) \<and>
   (subscription w = Some solverContentTopic \<longrightarrow>
      deliver cb w [(t, m)] = (if t = userRequestTopic then snd (cb w m) else w)) \<and>
   (subscription w = Some (userContentTopic b) \<longrightarrow>
      deliver cb w [(solverResponseTopic b', m)] = (if b' = b then snd (cb w m) else w))"
proof -
  have req: "published (snd (sendRequest e w)) =
      (if fst (sendRequest e w) = Inr ()
       then published w @
              [(''/iLayer/1/rfq/proto'', encodeRequest e (sampleMessage (getBucketFromPublicKey (wallet e))))]
       else published w)"
    by (cases "lightNode e";
        cases "lightPush e userRequestTopic (encodeRequest e (sampleMessage (userBucket e)))")
       (simp_all add: sendRequest_def Let_def userRequestTopic_def userBucket_def)
  have res1: "\<exists>resp. r = Some resp \<and>
         published (snd (sendResponse e w b r)) =
           published w @ [(''/iLayer/1/'' @ b @ ''/proto'', encodeResponse e resp)]"
    if "fst (sendResponse e w b r) = Inr ()"
    using sendResponse_sent [OF that] by (simp add: solverResponseTopic_def)
  have res2: "published (snd (sendResponse e w b r)) = published w"
    if "fst (sendResponse e w b r) \<noteq> Inr ()"
  proof (cases "fst (sendResponse e w b r)")
    case (Inl err)
    then show ?thesis by (rule sendResponse_failed)
  next
    case (Inr u)
    with that show ?thesis by simp
  qed
  have cb1: "\<exists>rq resp. decodeRequest e p = Inr rq \<and>
         fst (processMessage e (emit (LoggerLog ''New request for quotes received.'') w) rq) = Inr (Some resp) \<and>
         published (snd (callback e w (Some p))) =
           published w @ [(''/iLayer/1/'' @ bucket rq @ ''/proto'', encodeResponse e resp)]"
    if "fst (callback e w (Some p)) = Inr ()"
    using callback_sent [OF that] by (simp add: solverResponseTopic_def)
  have topics: "userRequestTopic = ''/iLayer/1/rfq/proto''" "solverContentTopic = ''/iLayer/1/rfq/proto''"
    "userContentTopic b = ''/iLayer/1/'' @ b @ ''/proto''" "solverResponseTopic b = ''/iLayer/1/'' @ b @ ''/proto''"
    by (simp_all add: userRequestTopic_def solverContentTopic_def userContentTopic_def solverResponseTopic_def)
  have listen: "listenToQuoteRequests True w =
     (False, emit (LoggerLog ''Subscribed to quotes request topic.'')
               (w\<lparr>subscription := Some ''/iLayer/1/rfq/proto''\<rparr>))"
    "listenToQuoteResponses e True w =
     (False, emit (LoggerLog ''Subscribed to quotes response topic.'')
               (w\<lparr>subscription := Some (''/iLayer/1/'' @ getBucketFromPublicKey (wallet e) @ ''/proto'')\<rparr>))"
    by (simp_all add: listenToQuoteRequests_def listenToQuoteResponses_def solverContentTopic_def
          userContentTopic_def userBucket_def)
  have d1: "deliver cb w [(t, m)] = (if t = userRequestTopic then snd (cb w m) else w)"
    if "subscription w = Some solverContentTopic"
    using that by (auto simp add: userRequestTopic_def solverContentTopic_def)
  have d2: "deliver cb w [(solverResponseTopic b', m)] = (if b' = b then snd (cb w m) else w)"
    if "subscription w = Some (userContentTopic b)"
    using that topic_inject [of b' b] by auto
  from topics topic_inject [of b' b] listen req res1 res2 cb1 d1 d2 show ?thesis
    by (intro conjI impI) simp_all
qed

text \<open>
  The scenario: the request goes out on \<open>/iLayer/1/rfq/proto\<close> and reaches the solver's
  callback, whose answer goes out on \<open>/iLayer/1/ab12cd34/proto\<close>; that answer reaches the
  requester listening with bucket \<open>ab12cd34\<close>, and one for bucket \<open>ffffffff\<close> does not.
\<close>

theorem C6_topics_witness:
  "published (snd (sendRequest (scenarioEnv scenarioPrices zeroFeeDraw) w0)) = [(''/iLayer/1/rfq/proto'', [1])] \<and>
   published (snd (sendRequest ((scenarioEnv scenarioPrices zeroFeeDraw)\<lparr>lightPush := \<lambda>t p. Some TransportError\<rparr>) w0)) = [] \<and>
   published (snd (sendResponse (scenarioEnv scenarioPrices zeroFeeDraw) w0 ''ab12cd34''
       (Some \<lparr>solver = ''0x02feed'',
               res_from = \<lparr>res_network = ''mainnet'', res_tokens = []\<rparr>,
               res_to = \<lparr>res_network = ''base'', res_tokens = []\<rparr>\<rparr>))) =
     [(''/iLayer/1/ab12cd34/proto'', [2])] \<and>
   published (snd (sendResponse (scenarioEnv scenarioPrices zeroFeeDraw) w0 ''ab12cd34'' None)) = [] \<and>
   published (snd (callback (scenarioEnv scenarioPrices zeroFeeDraw) w0 (Some [1]))) =
     [(''/iLayer/1/ab12cd34/proto'', [2])] \<and>
   deliver (callback (scenarioEnv scenarioPrices zeroFeeDraw)) w0 [(''/iLayer/1/rfq/proto'', Some [1])] =
     snd (callback (scenarioEnv scenarioPrices zeroFeeDraw) w0 (Some [1])) \<and>
   deliver (callback (scenarioEnv scenarioPrices zeroFeeDraw)) w0 [(''/iLayer/1/ab12cd34/proto'', Some [1])] = w0 \<and>
   deliver (userCallback (scenarioEnv scenarioPrices zeroFeeDraw))
       (w0\<lparr>subscription := Some ''/iLayer/1/ab12cd34/proto''\<rparr>) [(''/iLayer/1/ab12cd34/proto'', Some [2])] =
     snd (userCallback (scenarioEnv scenarioPrices zeroFeeDraw)
            (w0\<lparr>subscription := Some ''/iLayer/1/ab12cd34/proto''\<rparr>) (Some [2])) \<and>
   deliver (userCallback (scenarioEnv scenarioPrices zeroFeeDraw))
       (w0\<lparr>subscription := Some ''/iLayer/1/ab12cd34/proto''\<rparr>) [(''/iLayer/1/ffffffff/proto'', Some [2])] =
     w0\<lparr>subscription := Some ''/iLayer/1/ab12cd34/proto''\<rparr>"
proof -
  let ?e = "scenarioEnv scenarioPrices zeroFeeDraw"
  let ?e2 = "?e\<lparr>lightPush := \<lambda>t p. Some TransportError\<rparr>"
  let ?r = "\<lparr>solver = ''0x02feed'',
               res_from = \<lparr>res_network = ''mainnet'', res_tokens = []\<rparr>,
               res_to = \<lparr>res_network = ''base'', res_tokens = []\<rparr>\<rparr>"
  let ?resp = "\<lparr>solver = ''0x02feed'',
                 res_from = \<lparr>res_network = ''mainnet'', res_tokens = [\<lparr>res_address = ''0xAAA'', amount = 1000\<rparr>]\<rparr>,
                 res_to = \<lparr>res_network = ''base'',
                           res_tokens = [\<lparr>res_address = ''0xBBB'', amount = 150\<rparr>,
                                         \<lparr>res_address = ''0xCCC'', amount = 140\<rparr>]\<rparr>\<rparr>"
  let ?wu = "w0\<lparr>subscription := Some ''/iLayer/1/ab12cd34/proto''\<rparr>"
  have e: "decodeRequest ?e [1] = Inr scenarioRequest" "lightNode ?e = None"
    "lightPush ?e topic payload = None" "encodeResponse ?e r = [2]" "encodeRequest ?e rq = [1]"
    "bucket scenarioRequest = ''ab12cd34''"
    for topic payload r rq
    by (simp_all add: scenarioEnv_def scenarioRequest_def)
  have w: "published w0 = []" "subscription w0 = Some solverContentTopic"
    "subscription ?wu = Some (userContentTopic ''ab12cd34'')"
    by (simp_all add: w0_def userContentTopic_def)
  have h1: "fst (sendRequest ?e w0) = Inr ()"
    by (simp add: sendRequest_def e)
  have h2: "fst (sendRequest ?e2 w0) \<noteq> Inr ()"
    by (simp add: sendRequest_def scenarioEnv_def)
  have h3: "fst (sendResponse ?e w0 ''ab12cd34'' (Some ?r)) = Inr ()"
    by (simp add: sendResponse_def e)
  have h4: "fst (sendResponse ?e w0 ''ab12cd34'' None) \<noteq> Inr ()"
    by (simp add: sendResponse_def e)
  have "callback ?e w0 (Some [1]) =
      sendResponse ?e (snd (processMessage ?e (emit (LoggerLog ''New request for quotes received.'') w0) scenarioRequest))
        (bucket scenarioRequest) (Some ?resp)"
    using callback_decoded [OF e(1), of w0] by (simp add: scenario_answer)
  then have h5: "fst (callback ?e w0 (Some [1])) = Inr ()"
    by (simp add: sendResponse_def e)
  have A: "published (snd (sendRequest ?e w0)) = [(''/iLayer/1/rfq/proto'', [1])]"
    using C6_topics [of "''ab12cd34''" "''ab12cd34''" w0 ?e "Some ?r" "[1]"] h1 by (simp add: e w)
  have B: "published (snd (sendRequest ?e2 w0)) = []"
    using C6_topics [of "''ab12cd34''" "''ab12cd34''" w0 ?e2 "Some ?r" "[1]"] h2 by (simp add: w)
  have C: "published (snd (sendResponse ?e w0 ''ab12cd34'' (Some ?r))) = [(''/iLayer/1/ab12cd34/proto'', [2])]"
    using C6_topics [of "''ab12cd34''" "''ab12cd34''" w0 ?e "Some ?r" "[1]"] h3 by (simp add: e w)
  have D: "published (snd (sendResponse ?e w0 ''ab12cd34'' None)) = []"
    using C6_topics [of "''ab12cd34''" "''ab12cd34''" w0 ?e None "[1]"] h4 by (simp add: w)
  have E: "published (snd (callback ?e w0 (Some [1]))) = [(''/iLayer/1/ab12cd34/proto'', [2])]"
    using C6_topics [of "''ab12cd34''" "''ab12cd34''" w0 ?e "Some ?r" "[1]"] h5 by (auto simp add: e w)
  have tp: "userRequestTopic = ''/iLayer/1/rfq/proto''" "solverContentTopic = ''/iLayer/1/rfq/proto''"
    "userContentTopic ''ab12cd34'' = ''/iLayer/1/ab12cd34/proto''"
    "solverResponseTopic ''ab12cd34'' = ''/iLayer/1/ab12cd34/proto''"
    "solverResponseTopic ''ffffffff'' = ''/iLayer/1/ffffffff/proto''"
    by (simp_all add: userRequestTopic_def solverContentTopic_def userContentTopic_def solverResponseTopic_def)
  have "subscription w0 = Some solverContentTopic \<longrightarrow>
      deliver (callback ?e) w0 [(''/iLayer/1/rfq/proto'', Some [1])] =
        (if ''/iLayer/1/rfq/proto'' = userRequestTopic then snd (callback ?e w0 (Some [1])) else w0)"
    using C6_topics [of "''ab12cd34''" "''ab12cd34''" w0 ?e "Some ?r" "[1]" "callback ?e"
        "''/iLayer/1/rfq/proto''" "Some [1]"]
    by (elim conjE) assumption
  then have F: "deliver (callback ?e) w0 [(''/iLayer/1/rfq/proto'', Some [1])] = snd (callback ?e w0 (Some [1]))"
    using w(2) by (simp add: tp)
  have "subscription w0 = Some solverContentTopic \<longrightarrow>
      deliver (callback ?e) w0 [(''/iLayer/1/ab12cd34/proto'', Some [1])] =
        (if ''/iLayer/1/ab12cd34/proto'' = userRequestTopic then snd (callback ?e w0 (Some [1])) else w0)"
    using C6_topics [of "''ab12cd34''" "''ab12cd34''" w0 ?e "Some ?r" "[1]" "callback ?e"
        "''/iLayer/1/ab12cd34/proto''" "Some [1]"]
    by (elim conjE) assumption
  then have G: "deliver (callback ?e) w0 [(''/iLayer/1/ab12cd34/proto'', Some [1])] = w0"
    using w(2) by (simp add: tp)
  have "subscription ?wu = Some (userContentTopic ''ab12cd34'') \<longrightarrow>
      deliver (userCallback ?e) ?wu [(solverResponseTopic ''ab12cd34'', Some [2])] =
        (if ''ab12cd34'' = ''ab12cd34'' then snd (userCallback ?e ?wu (Some [2])) else ?wu)"
    using C6_topics [of "''ab12cd34''" "''ab12cd34''" ?wu ?e "Some ?r" "[1]" "userCallback ?e"
        "''/iLayer/1/rfq/proto''" "Some [2]"]
    by (elim conjE) assumption
  then have H: "deliver (userCallback ?e) ?wu [(''/iLayer/1/ab12cd34/proto'', Some [2])] =
      snd (userCallback ?e ?wu (Some [2]))"
    using w(3) by (simp add: tp)
  have "subscription ?wu = Some (userContentTopic ''ab12cd34'') \<longrightarrow>
      deliver (userCallback ?e) ?wu [(solverResponseTopic ''ffffffff'', Some [2])] =
        (if ''ffffffff'' = ''ab12cd34'' then snd (userCallback ?e ?wu (Some [2])) else ?wu)"
    using C6_topics [of "''ab12cd34''" "''ffffffff''" ?wu ?e "Some ?r" "[1]" "userCallback ?e"
        "''/iLayer/1/rfq/proto''" "Some [2]"]
    by (elim conjE) assumption
  then have I: "deliver (userCallback ?e) ?wu [(''/iLayer/1/ffffffff/proto'', Some [2])] = ?wu"
    using w(3) by (simp add: tp)
  from A B C D E F G H I show ?thesis
    by (intro conjI)
qed

text \<open>
  C7. For every public key, \<open>getBucketFromPublicKey\<close> returns exactly the first 8 hex
  characters of the SHA-256 digest of the public key: an 8-character string of
  lower-case hex digits. It is a function of the key alone: wallets with the same
  public key get the same bucket, whatever else they hold, so repeated calls on the
  same key return the same string.
\<close>

theorem C7_bucket:
  "getBucketFromPublicKey wlt = take 8 (sha256_hex (publicKey wlt)) \<and>
   length (sha256_hex (publicKey wlt)) = 64 \<and>
   length (getBucketFromPublicKey wlt) = 8 \<and>
   set (getBucketFromPublicKey wlt) \<subseteq> set hexDigits \<and>
   (\<forall>wlt'. publicKey wlt' = publicKey wlt \<longrightarrow>
      getBucketFromPublicKey wlt' = getBucketFromPublicKey wlt)"
proof -
  have "set (take 8 (sha256_hex (publicKey wlt))) \<subseteq> set (sha256_hex (publicKey wlt))"
    by (rule set_take_subset)
  then show ?thesis
    using set_sha256_hex [of "publicKey wlt"]
    by (simp add: getBucketFromPublicKey_def length_sha256_hex)
qed

theorem C7_bucket_witness:
  "publicKey \<lparr>publicKey = ''0x02feed'', privateKey = ''0x02''\<rparr> = publicKey \<lparr>publicKey = ''0x02feed'', privateKey = ''0x01''\<rparr> \<and>
   getBucketFromPublicKey \<lparr>publicKey = ''0x02feed'', privateKey = ''0x02''\<rparr> =
     getBucketFromPublicKey \<lparr>publicKey = ''0x02feed'', privateKey = ''0x01''\<rparr> \<and>
   length (getBucketFromPublicKey \<lparr>publicKey = ''0x02feed'', privateKey = ''0x01''\<rparr>) = 8"
proof -
  have k: "publicKey \<lparr>publicKey = ''0x02feed'', privateKey = ''0x02''\<rparr> =
           publicKey \<lparr>publicKey = ''0x02feed'', privateKey = ''0x01''\<rparr>"
    by simp
  from C7_bucket [of "\<lparr>publicKey = ''0x02feed'', privateKey = ''0x01''\<rparr>"] k show ?thesis
    by blast
qed

text \<open>
  C8. When the source token's price is known (on the price list and not zero), the
  Quote Response's \<open>from.tokens\<close> is an element-wise copy of the request's \<open>from.tokens\<close>
  with each entry's amount equal to that entry's weight, and the response's
  \<open>from.network\<close> and \<open>to.network\<close> are the request's.
\<close>

theorem C8_echo:
  assumes "tokens (req_from r) = s # ss"
    and "getPriceForAddress (fst (getTokenPrices (fetch e) w (extractTokenAddresses r))) (address s) = Some sp"
    and "sp \<noteq> 0"
  shows "\<exists>resp w'. processMessage e w r = (Inr (Some resp), w') \<and>
           res_tokens (res_from resp) =
             map (\<lambda>token. \<lparr>res_address = address token, amount = weight token\<rparr>) (tokens (req_from r)) \<and>
           res_network (res_from resp) = network (req_from r) \<and>
           res_network (res_to resp) = network (req_to r)"
  by (simp add: processMessage_priced [OF assms] Let_def)

theorem C8_echo_witness:
  "\<exists>resp w'. processMessage (scenarioEnv scenarioPrices (\<lambda>n. 1 / 2)) w0 scenarioRequest = (Inr (Some resp), w') \<and>
      res_tokens (res_from resp) = [\<lparr>res_address = ''0xAAA'', amount = 1000\<rparr>] \<and>
      res_network (res_from resp) = ''mainnet'' \<and> res_network (res_to resp) = ''base''"
proof -
  have h1: "tokens (req_from scenarioRequest) = \<lparr>address = ''0xAAA'', weight = 1000\<rparr> # []"
    by (simp add: scenarioRequest_def)
  have h2: "getPriceForAddress
      (fst (getTokenPrices (fetch (scenarioEnv scenarioPrices (\<lambda>n. 1 / 2))) w0 (extractTokenAddresses scenarioRequest)))
      (address \<lparr>address = ''0xAAA'', weight = 1000\<rparr>) = Some 1"
    by (simp add: scenario_defs)
  have h3: "(1::number) \<noteq> 0" by simp
  from C8_echo [OF h1 h2 h3] show ?thesis by (simp add: scenarioRequest_def)
qed

text \<open>
  C9. For every value of the underlying random draw in [0, 1), the fee returned by
  \<open>getRandomFeePercentage\<close> lies in [0.001, 0.01]. Consequently, for every destination
  token with a known (non-zero) price, the final amount lies between
  \<open>destQuantity * (1 - 0.01)\<close> and \<open>destQuantity * (1 - 0.001)\<close>, where
  \<open>destQuantity = sourceValue * weight / 100 / destPrice\<close>: between the two in either
  order, and in this order when \<open>destQuantity\<close> is not negative.
\<close>

theorem C9_fee_interval:
  assumes "\<forall>n. 0 \<le> rnd n \<and> rnd n < 1"
  shows "1 / 1000 \<le> fst (getRandomFeePercentage rnd w) \<and> fst (getRandomFeePercentage rnd w) \<le> 1 / 100 \<and>
         (\<forall>ts sourceValue prices i destPrice.
            i < length ts \<and> getPriceForAddress prices (address (ts ! i)) = Some destPrice \<and> destPrice \<noteq> 0 \<longrightarrow>
            (let destQuantity = sourceValue * weight (ts ! i) / 100 / destPrice;
                 final = amount (fst (computeUpdatedToTokens rnd w ts sourceValue prices) ! i)
             in min (destQuantity * (1 - 1 / 100)) (destQuantity * (1 - 1 / 1000)) \<le> final \<and>
                final \<le> max (destQuantity * (1 - 1 / 100)) (destQuantity * (1 - 1 / 1000)) \<and>
                (0 \<le> destQuantity \<longrightarrow>
                   destQuantity * (1 - 1 / 100) \<le> final \<and> final \<le> destQuantity * (1 - 1 / 1000))))"
proof -
  have fb: "1 / 1000 \<le> fst (getRandomFeePercentage rnd w')" "fst (getRandomFeePercentage rnd w') \<le> 1 / 100" for w'
    using assms fee_bounds [of rnd w'] by simp_all
  have tok: "min (q * (1 - 1 / 100)) (q * (1 - 1 / 1000)) \<le> final \<and>
             final \<le> max (q * (1 - 1 / 100)) (q * (1 - 1 / 1000)) \<and>
             (0 \<le> q \<longrightarrow> q * (1 - 1 / 100) \<le> final \<and> final \<le> q * (1 - 1 / 1000))"
    if i: "i < length ts" and p: "getPriceForAddress prices (address (ts ! i)) = Some destPrice" "destPrice \<noteq> 0"
      and q: "q = sourceValue * weight (ts ! i) / 100 / destPrice"
      and f: "final = amount (fst (computeUpdatedToTokens rnd w ts sourceValue prices) ! i)"
    for ts sourceValue prices i destPrice q final
  proof -
    obtain w' where "fst (computeUpdatedToTokens rnd w ts sourceValue prices) ! i =
        fst (computeToToken rnd sourceValue prices w' (ts ! i))"
      using computeUpdatedToTokens_nth_any [OF i] by blast
    then have fin: "final = q * (1 - fst (getRandomFeePercentage rnd w'))"
      by (simp add: f q computeToToken_priced [OF p])
    have b: "min (q * (1 - 1 / 100)) (q * (1 - 1 / 1000)) \<le> final"
        "final \<le> max (q * (1 - 1 / 100)) (q * (1 - 1 / 1000))"
      unfolding fin by (rule between_scaled [OF fb])+
    have "q * (1 - 1 / 100) \<le> final \<and> final \<le> q * (1 - 1 / 1000)" if "0 \<le> q"
    proof -
      have "q * (1 - 1 / 100) \<le> q * (1 - 1 / 1000)" using that by (simp add: mult_left_mono)
      with b show ?thesis by (simp add: min_def max_def split: if_splits)
    qed
    with b show ?thesis by blast
  qed
  show ?thesis
  proof (intro conjI allI impI)
    show "1 / 1000 \<le> fst (getRandomFeePercentage rnd w)" by (rule fb)
    show "fst (getRandomFeePercentage rnd w) \<le> 1 / 100" by (rule fb)
  next
    fix ts :: "RequestToken list" and sourceValue :: number and prices :: "Price list"
      and i :: nat and destPrice :: number
    assume h: "i < length ts \<and> getPriceForAddress prices (address (ts ! i)) = Some destPrice \<and> destPrice \<noteq> 0"
    then have h1: "i < length ts" and h2: "getPriceForAddress prices (address (ts ! i)) = Some destPrice"
      and h3: "destPrice \<noteq> 0" by blast+
    show "let destQuantity = sourceValue * weight (ts ! i) / 100 / destPrice;
              final = amount (fst (computeUpdatedToTokens rnd w ts sourceValue prices) ! i)
          in min (destQuantity * (1 - 1 / 100)) (destQuantity * (1 - 1 / 1000)) \<le> final \<and>
             final \<le> max (destQuantity * (1 - 1 / 100)) (destQuantity * (1 - 1 / 1000)) \<and>
             (0 \<le> destQuantity \<longrightarrow>
                destQuantity * (1 - 1 / 100) \<le> final \<and> final \<le> destQuantity * (1 - 1 / 1000))"
      unfolding Let_def by (rule tok [OF h1 h2 h3 refl refl])
  qed
qed

theorem C9_fee_interval_witness:
  "1 / 1000 \<le> fst (getRandomFeePercentage (\<lambda>n. 1 / 2) w0) \<and>
   fst (getRandomFeePercentage (\<lambda>n. 1 / 2) w0) \<le> 1 / 100 \<and>
   140 * (1 - 1 / 100)
     \<le> amount (fst (computeUpdatedToTokens (\<lambda>n. 1 / 2) w0 (tokens (req_to scenarioRequest)) 1000
                      [\<lparr>price_address = ''0xbbb'', price = 2\<rparr>, \<lparr>price_address = ''0xccc'', price = 5\<rparr>]) ! 1) \<and>
   amount (fst (computeUpdatedToTokens (\<lambda>n. 1 / 2) w0 (tokens (req_to scenarioRequest)) 1000
                  [\<lparr>price_address = ''0xbbb'', price = 2\<rparr>, \<lparr>price_address = ''0xccc'', price = 5\<rparr>]) ! 1)
     \<le> 140 * (1 - 1 / 1000)"
proof -
  let ?ts = "tokens (req_to scenarioRequest)"
  let ?prices = "[\<lparr>price_address = ''0xbbb'', price = 2\<rparr>, \<lparr>price_address = ''0xccc'', price = 5\<rparr>]"
  let ?final = "amount (fst (computeUpdatedToTokens (\<lambda>n. 1 / 2) w0 ?ts 1000 ?prices) ! 1)"
  have h: "\<forall>n. 0 \<le> (\<lambda>n. 1 / 2 :: number) n \<and> (\<lambda>n. 1 / 2 :: number) n < 1" by simp
  note t = C9_fee_interval [OF h, of w0]
  have p: "1 < length ?ts \<and> getPriceForAddress ?prices (address (?ts ! 1)) = Some 5 \<and> (5::number) \<noteq> 0"
    by (simp add: scenario_defs)
  from t have "1 < length ?ts \<and> getPriceForAddress ?prices (address (?ts ! 1)) = Some 5 \<and> (5::number) \<noteq> 0 \<longrightarrow>
      (let destQuantity = 1000 * weight (?ts ! 1) / 100 / 5; final = ?final
       in min (destQuantity * (1 - 1 / 100)) (destQuantity * (1 - 1 / 1000)) \<le> final \<and>
          final \<le> max (destQuantity * (1 - 1 / 100)) (destQuantity * (1 - 1 / 1000)) \<and>
          (0 \<le> destQuantity \<longrightarrow>
             destQuantity * (1 - 1 / 100) \<le> final \<and> final \<le> destQuantity * (1 - 1 / 1000)))"
    by blast
  with p have "let destQuantity = 1000 * weight (?ts ! 1) / 100 / 5; final = ?final
       in min (destQuantity * (1 - 1 / 100)) (destQuantity * (1 - 1 / 1000)) \<le> final \<and>
          final \<le> max (destQuantity * (1 - 1 / 100)) (destQuantity * (1 - 1 / 1000)) \<and>
          (0 \<le> destQuantity \<longrightarrow>
             destQuantity * (1 - 1 / 100) \<le> final \<and> final \<le> destQuantity * (1 - 1 / 1000))"
    by blast
  moreover have "(1000 * weight (?ts ! 1) / 100 / 5 :: number) = 140"
    by (simp add: scenarioRequest_def)
  ultimately have "140 * (1 - 1 / 100) \<le> ?final \<and> ?final \<le> 140 * (1 - 1 / 1000)"
    by (simp add: Let_def)
  with t show ?thesis by blast
qed

text \<open>
  C10. A token whose price is on the price list but equal to exactly 0 is treated the
  same as a token with no price, because the checks test falsiness, not presence: a
  destination token priced 0 gets the response amount 0 and the same error line as an
  unpriced one, and a source token priced 0 makes \<open>processMessage\<close> return no Quote
  Response, exactly as a missing source price does.
\<close>

theorem C10_zero_price:
  fixes t s :: RequestToken
  shows
  "truthy (Some 0) = truthy None \<and>
   (getPriceForAddress prices (address t) = Some 0 \<or> getPriceForAddress prices (address t) = None \<longrightarrow>
      computeToToken rnd usd prices w t =
        (\<lparr>res_address = address t, amount = 0\<rparr>,
         emit (ConsoleError (''Prezzo non trovato per l'' @ [CHR 0x27] @ ''indirizzo '' @ address t)) w) \<and>
      fst (computeUpdatedToTokens rnd w (xs @ t # ys) usd prices) ! length xs =
        \<lparr>res_address = address t, amount = 0\<rparr>) \<and>
   (tokens (req_from r) = s # ss \<and>
    (getPriceForAddress (fst (getTokenPrices (fetch e) w (extractTokenAddresses r))) (address s) = Some 0 \<or>
     getPriceForAddress (fst (getTokenPrices (fetch e) w (extractTokenAddresses r))) (address s) = None) \<longrightarrow>
      processMessage e w r =
        (Inr None,
         emit (LoggerError (''Price not found for '' @ address s))
           (snd (getTokenPrices (fetch e) w (extractTokenAddresses r)))))"
proof (intro conjI impI)
  show "truthy (Some 0) = truthy None" by (simp add: truthy_def)
next
  assume "getPriceForAddress prices (address t) = Some 0 \<or> getPriceForAddress prices (address t) = None"
  then have u: "truthy (getPriceForAddress prices (address t)) = None"
    by (auto simp: truthy_def)
  show "computeToToken rnd usd prices w t =
        (\<lparr>res_address = address t, amount = 0\<rparr>,
         emit (ConsoleError (''Prezzo non trovato per l'' @ [CHR 0x27] @ ''indirizzo '' @ address t)) w)"
    by (rule computeToToken_unpriced [OF u])
  have "length (take (length xs) (fst (computeUpdatedToTokens rnd w (xs @ ys) usd prices))) = length xs"
    by (simp add: computeUpdatedToTokens_length)
  then show "fst (computeUpdatedToTokens rnd w (xs @ t # ys) usd prices) ! length xs =
        \<lparr>res_address = address t, amount = 0\<rparr>"
    unfolding computeUpdatedToTokens_skip_unpriced [OF u]
    by (metis nth_append_length)
next
  assume a: "tokens (req_from r) = s # ss \<and>
    (getPriceForAddress (fst (getTokenPrices (fetch e) w (extractTokenAddresses r))) (address s) = Some 0 \<or>
     getPriceForAddress (fst (getTokenPrices (fetch e) w (extractTokenAddresses r))) (address s) = None)"
  then have u: "truthy (getPriceForAddress (fst (getTokenPrices (fetch e) w (extractTokenAddresses r))) (address s)) = None"
    by (auto simp: truthy_def)
  from a have f: "tokens (req_from r) = s # ss" by blast
  show "processMessage e w r =
        (Inr None,
         emit (LoggerError (''Price not found for '' @ address s))
           (snd (getTokenPrices (fetch e) w (extractTokenAddresses r))))"
    by (rule processMessage_unpriced [OF f u])
qed

theorem C10_zero_price_witness:
  "fst (computeUpdatedToTokens zeroFeeDraw w0 ([] @ \<lparr>address = ''0xBBB'', weight = 30\<rparr> # [\<lparr>address = ''0xCCC'', weight = 70\<rparr>]) 1000
          [\<lparr>price_address = ''0xbbb'', price = 0\<rparr>, \<lparr>price_address = ''0xccc'', price = 5\<rparr>]) ! length ([] :: RequestToken list)
     = \<lparr>res_address = ''0xBBB'', amount = 0\<rparr> \<and>
   fst (processMessage (scenarioEnv [(''0xaaa'', 0), (''0xbbb'', 2), (''0xccc'', 5)] zeroFeeDraw) w0 scenarioRequest) = Inr None"
proof -
  let ?e = "scenarioEnv [(''0xaaa'', 0), (''0xbbb'', 2), (''0xccc'', 5)] zeroFeeDraw"
  let ?prices = "[\<lparr>price_address = ''0xbbb'', price = 0\<rparr>, \<lparr>price_address = ''0xccc'', price = 5\<rparr>]"
  let ?t = "\<lparr>address = ''0xBBB'', weight = 30\<rparr>"
  let ?s = "\<lparr>address = ''0xAAA'', weight = 1000\<rparr>"
  have d: "getPriceForAddress ?prices (address ?t) = Some 0 \<or> getPriceForAddress ?prices (address ?t) = None"
    by (simp add: scenario_defs)
  have s: "tokens (req_from scenarioRequest) = ?s # [] \<and>
    (getPriceForAddress (fst (getTokenPrices (fetch ?e) w0 (extractTokenAddresses scenarioRequest))) (address ?s) = Some 0 \<or>
     getPriceForAddress (fst (getTokenPrices (fetch ?e) w0 (extractTokenAddresses scenarioRequest))) (address ?s) = None)"
    by (simp add: scenario_defs)
  note t = C10_zero_price [of ?prices ?t zeroFeeDraw 1000 w0 "[]" "[\<lparr>address = ''0xCCC'', weight = 70\<rparr>]" scenarioRequest ?s "[]" ?e]
  from t d have "fst (computeUpdatedToTokens zeroFeeDraw w0 ([] @ ?t # [\<lparr>address = ''0xCCC'', weight = 70\<rparr>]) 1000 ?prices) ! length ([] :: RequestToken list)
     = \<lparr>res_address = address ?t, amount = 0\<rparr>" by blast
  moreover from t s have "processMessage ?e w0 scenarioRequest =
        (Inr None,
         emit (LoggerError (''Price not found for '' @ address ?s))
           (snd (getTokenPrices (fetch ?e) w0 (extractTokenAddresses scenarioRequest))))" by blast
  ultimately show ?thesis by simp
qed

end
